theory Spec2Isabelle
  imports Complex_Main "HOL-Library.Multiset" "HOL-Library.Char_ord" "HOL-Library.List_Lexorder"
begin

section \<open>Numbers of the scripts\<close>

text \<open>
  The repository holds two user scripts, version 0.1.0 and version 0.2.0 of
  \<open>merrill-portfolio-beta.js\<close>. Where both define a function of the same name the
  embedding suffixes \<open>_v1\<close> and \<open>_v2\<close>; names the source uses once are kept.

  A JavaScript number is embedded as an exact real number or one of the three special
  values. Rounding to 53 bits, overflow to an infinity and the sign of zero are not part
  of the embedding: arithmetic on \<open>Num\<close> is exact.
\<close>

datatype jsnum = Num real | PInf | NInf | NaN

fun isFinite :: "jsnum \<Rightarrow> bool" where
  "isFinite (Num _) = True"
| "isFinite _ = False"

fun isNaN :: "jsnum \<Rightarrow> bool" where
  "isNaN NaN = True"
| "isNaN _ = False"

fun js_neg :: "jsnum \<Rightarrow> jsnum" where
  "js_neg (Num a) = Num (- a)"
| "js_neg PInf = NInf"
| "js_neg NInf = PInf"
| "js_neg NaN = NaN"

fun js_add :: "jsnum \<Rightarrow> jsnum \<Rightarrow> jsnum" where
  "js_add (Num a) (Num b) = Num (a + b)"
| "js_add NaN _ = NaN"
| "js_add _ NaN = NaN"
| "js_add PInf NInf = NaN"
| "js_add NInf PInf = NaN"
| "js_add PInf _ = PInf"
| "js_add _ PInf = PInf"
| "js_add NInf _ = NInf"
| "js_add _ NInf = NInf"

definition js_sub :: "jsnum \<Rightarrow> jsnum \<Rightarrow> jsnum" where
  "js_sub a b = js_add a (js_neg b)"

text \<open>The sign of an infinite product follows the sign of the finite factor; zero
  times an infinity is NaN.\<close>

definition inf_times :: "bool \<Rightarrow> real \<Rightarrow> jsnum" where
  "inf_times positive b =
     (if b = 0 then NaN else if (0 < b) = positive then PInf else NInf)"

fun js_mul :: "jsnum \<Rightarrow> jsnum \<Rightarrow> jsnum" where
  "js_mul (Num a) (Num b) = Num (a * b)"
| "js_mul NaN _ = NaN"
| "js_mul _ NaN = NaN"
| "js_mul PInf (Num b) = inf_times True b"
| "js_mul NInf (Num b) = inf_times False b"
| "js_mul (Num a) PInf = inf_times True a"
| "js_mul (Num a) NInf = inf_times False a"
| "js_mul PInf PInf = PInf"
| "js_mul NInf NInf = PInf"
| "js_mul PInf NInf = NInf"
| "js_mul NInf PInf = NInf"

text \<open>Division. A zero divisor is taken as positive zero.\<close>

fun js_div :: "jsnum \<Rightarrow> jsnum \<Rightarrow> jsnum" where
  "js_div (Num a) (Num b) =
     (if b = 0 then (if a = 0 then NaN else if 0 < a then PInf else NInf)
      else Num (a / b))"
| "js_div NaN _ = NaN"
| "js_div _ NaN = NaN"
| "js_div (Num a) PInf = Num 0"
| "js_div (Num a) NInf = Num 0"
| "js_div PInf (Num b) = (if 0 \<le> b then PInf else NInf)"
| "js_div NInf (Num b) = (if 0 \<le> b then NInf else PInf)"
| "js_div PInf PInf = NaN"
| "js_div PInf NInf = NaN"
| "js_div NInf PInf = NaN"
| "js_div NInf NInf = NaN"

text \<open>\<open>a < b\<close>; every comparison with NaN is false.\<close>

fun js_lt :: "jsnum \<Rightarrow> jsnum \<Rightarrow> bool" where
  "js_lt (Num a) (Num b) = (a < b)"
| "js_lt NaN _ = False"
| "js_lt _ NaN = False"
| "js_lt NInf NInf = False"
| "js_lt NInf _ = True"
| "js_lt _ NInf = False"
| "js_lt PInf _ = False"
| "js_lt _ PInf = True"

definition js_gt :: "jsnum \<Rightarrow> jsnum \<Rightarrow> bool" where
  "js_gt a b = js_lt b a"

text \<open>\<open>a <= b\<close>.\<close>

definition js_le :: "jsnum \<Rightarrow> jsnum \<Rightarrow> bool" where
  "js_le a b = (js_lt a b \<or> (\<not> isNaN a \<and> a = b))"

section \<open>Beta from paired returns\<close>

subsection \<open>Version 0.1.0: variance, covariance, betaFromReturns\<close>

text \<open>\<open>arr.reduce((s, x) => s + x, 0)\<close> is \<open>foldl js_add (Num 0) arr\<close>; the
  \<open>for\<close> loops accumulate from 0 in the same way.\<close>

definition variance :: "jsnum list \<Rightarrow> jsnum" where
  "variance arr =
     (if length arr < 2 then NaN
      else let mean = js_div (foldl js_add (Num 0) arr) (Num (real (length arr)));
               v = foldl (\<lambda>v x. js_add v (js_mul (js_sub x mean) (js_sub x mean))) (Num 0) arr
           in js_div v (Num (real (length arr) - 1)))"

definition covariance :: "jsnum list \<Rightarrow> jsnum list \<Rightarrow> jsnum" where
  "covariance a b =
     (if length a \<noteq> length b \<or> length a < 2 then NaN
      else let meanA = js_div (foldl js_add (Num 0) a) (Num (real (length a)));
               meanB = js_div (foldl js_add (Num 0) b) (Num (real (length b)));
               c = foldl (\<lambda>c (x, y). js_add c (js_mul (js_sub x meanA) (js_sub y meanB)))
                     (Num 0) (zip a b)
           in js_div c (Num (real (length a) - 1)))"

definition betaFromReturns :: "jsnum list \<Rightarrow> jsnum list \<Rightarrow> jsnum" where
  "betaFromReturns assetR mktR =
     (let v = variance mktR
      in if \<not> isFinite v \<or> v = Num 0 then NaN
         else js_div (covariance assetR mktR) v)"

subsection \<open>Version 0.2.0: calculateBeta\<close>

text \<open>The loop runs \<open>i\<close> over the indices of \<open>asset\<close> and reads \<open>mkt[i]\<close>; past the
  end of \<open>mkt\<close> the read is \<open>undefined\<close>, which arithmetic turns into NaN.\<close>

fun beta_loop :: "jsnum \<Rightarrow> jsnum \<Rightarrow> jsnum \<times> jsnum \<Rightarrow> jsnum list \<Rightarrow> jsnum list \<Rightarrow> jsnum \<times> jsnum" where
  "beta_loop meanA meanM (cov, varM) [] ms = (cov, varM)"
| "beta_loop meanA meanM (cov, varM) (a # as) ms =
     (let m = (case ms of [] \<Rightarrow> NaN | m # _ \<Rightarrow> m)
      in beta_loop meanA meanM
           (js_add cov (js_mul (js_sub a meanA) (js_sub m meanM)),
            js_add varM (js_mul (js_sub m meanM) (js_sub m meanM)))
           as (tl ms))"

definition calculateBeta :: "jsnum list \<Rightarrow> jsnum list \<Rightarrow> jsnum" where
  "calculateBeta asset mkt =
     (let n = length asset
      in if n < 20 then NaN
         else let meanA = js_div (foldl js_add (Num 0) asset) (Num (real n));
                  meanM = js_div (foldl js_add (Num 0) mkt) (Num (real n));
                  (cov, varM) = beta_loop meanA meanM (Num 0, Num 0) asset mkt
              in if varM = Num 0 then NaN else js_div cov varM)"

subsection \<open>The sample statistics of the specification\<close>

text \<open>Sample variance and sample covariance with divisor \<open>n - 1\<close>, over the reals, as
  the specification words them.\<close>

definition mean :: "real list \<Rightarrow> real" where
  "mean xs = sum_list xs / real (length xs)"

definition sample_variance :: "real list \<Rightarrow> real" where
  "sample_variance xs = (\<Sum>x\<leftarrow>xs. (x - mean xs) * (x - mean xs)) / (real (length xs) - 1)"

definition sample_covariance :: "real list \<Rightarrow> real list \<Rightarrow> real" where
  "sample_covariance xs ys =
     (\<Sum>(x, y)\<leftarrow>zip xs ys. (x - mean xs) * (y - mean ys)) / (real (length xs) - 1)"

section \<open>Price rows, return rows and the aligner\<close>

text \<open>\<open>{date, close}\<close> and \<open>{date, r}\<close>. Dates are the strings the provider sent.\<close>

record price_row =
  date :: string
  close :: jsnum

record return_row =
  rdate :: string
  rvalue :: jsnum

text \<open>Version 0.1.0 skips a pair unless both closes are finite and the earlier one is
  positive.\<close>

fun toReturns_v1 :: "price_row list \<Rightarrow> return_row list" where
  "toReturns_v1 (x # y # rest) =
     (let p0 = close x; p1 = close y
      in (if \<not> isFinite p0 \<or> \<not> isFinite p1 \<or> js_le p0 (Num 0) then []
          else [\<lparr>rdate = date y, rvalue = js_sub (js_div p1 p0) (Num 1)\<rparr>])
         @ toReturns_v1 (y # rest))"
| "toReturns_v1 _ = []"

text \<open>Version 0.2.0 keeps a pair when \<open>p0 > 0 && p1 > 0\<close>.\<close>

fun toReturns_v2 :: "price_row list \<Rightarrow> return_row list" where
  "toReturns_v2 (x # y # rest) =
     (let p0 = close x; p1 = close y
      in (if js_gt p0 (Num 0) \<and> js_gt p1 (Num 0)
          then [\<lparr>rdate = date y, rvalue = js_sub (js_div p1 p0) (Num 1)\<rparr>]
          else [])
         @ toReturns_v2 (y # rest))"
| "toReturns_v2 _ = []"

text \<open>\<open>new Map(mkt.map(x => [x.date, x.r]))\<close>: a later row of the same date replaces
  the earlier one.\<close>

definition mktMap_of :: "return_row list \<Rightarrow> (string \<rightharpoonup> jsnum)" where
  "mktMap_of mktRets = foldl (\<lambda>m x. m(rdate x \<mapsto> rvalue x)) Map.empty mktRets"

text \<open>The loop over the asset rows; the result \<open>{asset: xs, mkt: ys}\<close> is the pair
  \<open>(xs, ys)\<close>.\<close>

fun align_loop :: "(string \<rightharpoonup> jsnum) \<Rightarrow> return_row list \<Rightarrow> jsnum list \<times> jsnum list" where
  "align_loop mktMap [] = ([], [])"
| "align_loop mktMap (a # rest) =
     (case mktMap (rdate a) of
        None \<Rightarrow> align_loop mktMap rest
      | Some m \<Rightarrow> (let (xs, ys) = align_loop mktMap rest in (rvalue a # xs, m # ys)))"

text \<open>The two versions of \<open>alignReturns\<close> differ only in how the test is written
  (\<open>if (m === undefined) continue\<close> against \<open>if (m !== undefined) {...}\<close>).\<close>

definition alignReturns :: "return_row list \<Rightarrow> return_row list \<Rightarrow> jsnum list \<times> jsnum list" where
  "alignReturns assetRets mktRets = align_loop (mktMap_of mktRets) assetRets"

section \<open>Strings\<close>

text \<open>
  A string is a list of characters. The embedding covers the ASCII range: case mapping
  changes the letters \<open>A\<close> to \<open>Z\<close> and \<open>a\<close> to \<open>z\<close> only, and white space (what
  \<open>trim\<close> strips and \<open>\s\<close> matches) is the space, the tab, the line feed, the vertical
  tab, the form feed and the carriage return. Characters beyond ASCII are left as they
  are and are not white space.
\<close>

definition is_space :: "char \<Rightarrow> bool" where
  "is_space c = (c \<in> {CHR 0x20, CHR 0x09, CHR 0x0A, CHR 0x0B, CHR 0x0C, CHR 0x0D})"

definition is_upper :: "char \<Rightarrow> bool" where
  "is_upper c = (CHR ''A'' \<le> c \<and> c \<le> CHR ''Z'')"

definition is_lower :: "char \<Rightarrow> bool" where
  "is_lower c = (CHR ''a'' \<le> c \<and> c \<le> CHR ''z'')"

definition lower_char :: "char \<Rightarrow> char" where
  "lower_char c = (if is_upper c then char_of (of_char c + (32::nat)) else c)"

definition upper_char :: "char \<Rightarrow> char" where
  "upper_char c = (if is_lower c then char_of (of_char c - (32::nat)) else c)"

definition toLowerCase :: "string \<Rightarrow> string" where
  "toLowerCase s = map lower_char s"

definition toUpperCase :: "string \<Rightarrow> string" where
  "toUpperCase s = map upper_char s"

definition trim :: "string \<Rightarrow> string" where
  "trim s = rev (dropWhile is_space (rev (dropWhile is_space s)))"

text \<open>\<open>s.split(c)\<close> for a one-character separator: there is always at least one
  piece.\<close>

fun split_on :: "char \<Rightarrow> string \<Rightarrow> string list" where
  "split_on sep [] = [[]]"
| "split_on sep (c # cs) =
     (if c = sep then [] # split_on sep cs
      else (case split_on sep cs of p # ps \<Rightarrow> (c # p) # ps | [] \<Rightarrow> [[c]]))"

text \<open>\<open>s.split(/\r?\n/)\<close>: the pieces between line feeds; a piece that a line feed
  ends loses one carriage return just before that line feed.\<close>

definition drop_cr :: "string \<Rightarrow> string" where
  "drop_cr p = (if p \<noteq> [] \<and> last p = CHR 0x0D then butlast p else p)"

definition split_lines :: "string \<Rightarrow> string list" where
  "split_lines s =
     (let ps = split_on (CHR 0x0A) s in map drop_cr (butlast ps) @ [last ps])"

text \<open>\<open>arr.findIndex(p)\<close>, with \<open>None\<close> for \<open>-1\<close>.\<close>

fun findIndex :: "('a \<Rightarrow> bool) \<Rightarrow> 'a list \<Rightarrow> nat option" where
  "findIndex p [] = None"
| "findIndex p (x # xs) = (if p x then Some 0 else map_option Suc (findIndex p xs))"

text \<open>\<open>arr[i]\<close> where \<open>i\<close> may be \<open>-1\<close> or past the end: \<open>None\<close> is \<open>undefined\<close>.\<close>

definition at_index :: "'a list \<Rightarrow> nat option \<Rightarrow> 'a option" where
  "at_index xs i = (case i of None \<Rightarrow> None | Some k \<Rightarrow> (if k < length xs then Some (xs ! k) else None))"

text \<open>\<open>arr.slice(k)\<close>: from the end for a negative \<open>k\<close>.\<close>

definition slice_from :: "int \<Rightarrow> 'a list \<Rightarrow> 'a list" where
  "slice_from k xs = (if k < 0 then drop (length xs - nat (- k)) xs else drop (nat k) xs)"

section \<open>Ticker normalisation\<close>

text \<open>\<open>/\.[a-z]{2,}$/i.test(t)\<close>: the string ends in a dot followed by two or more
  letters. A dot is no letter, so the letters are the longest run of letters at the
  end.\<close>

definition is_letter :: "char \<Rightarrow> bool" where
  "is_letter c = (is_upper c \<or> is_lower c)"

definition has_suffix :: "string \<Rightarrow> bool" where
  "has_suffix t =
     (2 \<le> length (takeWhile is_letter (rev t)) \<and>
      (case dropWhile is_letter (rev t) of [] \<Rightarrow> False | c # _ \<Rightarrow> c = CHR ''.''))"

text \<open>Version 0.1.0. \<open>t.replace(/\s+/g, "")\<close> removes every white-space character.\<close>

definition normalizeToStooqSymbol :: "string \<Rightarrow> string" where
  "normalizeToStooqSymbol rawTicker =
     (let t = trim rawTicker
      in if t = [] then []
         else if has_suffix t then toLowerCase t
         else let t = filter (\<lambda>c. \<not> is_space c) t
              in if CHR ''.'' \<in> set t then toLowerCase t
                 else toLowerCase t @ ''.us'')"

text \<open>Version 0.2.0. Any source other than \<open>stooq\<close> takes the second branch:
  \<open>t.replace(/\./g, "-")\<close>.\<close>

definition normalizeTicker :: "string \<Rightarrow> string \<Rightarrow> string" where
  "normalizeTicker raw source =
     (let t = toUpperCase (trim raw)
      in if t = [] then []
         else if source = ''stooq'' then
           (if has_suffix t then toLowerCase t
            else let t = filter (\<lambda>c. \<not> is_space c) t
                 in if CHR ''.'' \<in> set t then toLowerCase t
                    else toLowerCase t @ ''.us'')
         else map (\<lambda>c. if c = CHR ''.'' then CHR ''-'' else c) t)"

section \<open>Exceptions and the environment\<close>

text \<open>A thrown \<open>Error\<close> carries its message; \<open>TypeError\<close> is what a property read on
  \<open>null\<close> throws.\<close>

datatype exn = Error string | TypeError

text \<open>
  What the scripts take from the browser, threaded through a world \<open>'w\<close> that every
  asynchronous call and every reading of the clock may change:
  \<^item> \<open>gmFetch\<close> (\<open>gmFetchText\<close> in version 0.1.0): the text the Stooq request for a
    symbol resolves with, or the exception it rejects with;
  \<^item> \<open>fetchPricesYahoo\<close>: the Yahoo fetch of version 0.2.0 as a whole, rows or an
    exception (its JSON traversal and date formatting are not embedded);
  \<^item> \<open>Number\<close>: the conversion of a string to a number;
  \<^item> \<open>dateNow\<close>: \<open>Date.now()\<close>, in milliseconds;
  \<^item> \<open>sleep\<close>: \<open>await sleep(1000)\<close>.
\<close>

record 'w env =
  gmFetch :: "'w \<Rightarrow> string \<Rightarrow> (exn + string) \<times> 'w"
  fetchPricesYahoo :: "'w \<Rightarrow> string \<Rightarrow> (exn + price_row list) \<times> 'w"
  Number :: "string \<Rightarrow> jsnum"
  dateNow :: "'w \<Rightarrow> int \<times> 'w"
  sleep :: "'w \<Rightarrow> 'w"

section \<open>Price fetch from Stooq\<close>

subsection \<open>Version 0.1.0: parseStooqCsv and fetchPrices\<close>

text \<open>One data line. \<open>parts[closeIdx]\<close> past the end is \<open>undefined\<close>, whose number is
  NaN; a missing or empty date, or a close that is not finite, skips the line.\<close>

definition csv_row_v1 :: "(string \<Rightarrow> jsnum) \<Rightarrow> nat option \<Rightarrow> nat option \<Rightarrow> string \<Rightarrow> price_row list" where
  "csv_row_v1 num dateIdx closeIdx line =
     (let parts = split_on (CHR '','') line;
          c = (case at_index parts closeIdx of None \<Rightarrow> NaN | Some s \<Rightarrow> num s)
      in case at_index parts dateIdx of
           None \<Rightarrow> []
         | Some d \<Rightarrow> if d = [] \<or> \<not> isFinite c then [] else [\<lparr>date = d, close = c\<rparr>])"

text \<open>The rows are sorted by date, as strings; the sort is stable.\<close>

definition parseStooqCsv :: "(string \<Rightarrow> jsnum) \<Rightarrow> string \<Rightarrow> price_row list" where
  "parseStooqCsv num csvText =
     (let lines = split_lines (trim csvText)
      in if length lines < 3 then []
         else let header = split_on (CHR '','') (hd lines);
                  dateIdx = findIndex (\<lambda>h. toLowerCase h = ''date'') header;
                  closeIdx = findIndex (\<lambda>h. toLowerCase h = ''close'') header
              in if dateIdx = None \<or> closeIdx = None then []
                 else sort_key date (concat (map (csv_row_v1 num dateIdx closeIdx) (tl lines))))"

text \<open>\<open>fetchPrices\<close> on the outcome of the request. The pause of one second follows a
  success only; it is in \<open>fetchPrices_io_v1\<close> below.\<close>

definition fetchPrices_v1 :: "(string \<Rightarrow> jsnum) \<Rightarrow> string \<Rightarrow> exn + string \<Rightarrow> exn + price_row list" where
  "fetchPrices_v1 num symbol response =
     (case response of
        Inl e \<Rightarrow> Inl e
      | Inr txt \<Rightarrow>
          (let rows = parseStooqCsv num txt
           in if rows = []
              then Inl (Error (''No price data from Stooq for '' @ symbol @
                               ''. Check symbol format (e.g., aapl.us).''))
              else Inr rows))"

definition fetchPrices_io_v1 :: "'w env \<Rightarrow> string \<Rightarrow> 'w \<Rightarrow> (exn + price_row list) \<times> 'w" where
  "fetchPrices_io_v1 env symbol w =
     (let (response, w1) = gmFetch env w symbol
      in case fetchPrices_v1 (Number env) symbol response of
           Inl e \<Rightarrow> (Inl e, w1)
         | Inr rows \<Rightarrow> (Inr rows, sleep env w1))"

subsection \<open>Version 0.2.0: fetchPricesStooq\<close>

text \<open>Here the header indices are not checked: \<open>parts[-1]\<close> is \<open>undefined\<close>.
  \<open>isNaN(parts[closeIdx])\<close> converts the string to a number first.\<close>

definition csv_row_v2 :: "(string \<Rightarrow> jsnum) \<Rightarrow> nat option \<Rightarrow> nat option \<Rightarrow> string \<Rightarrow> price_row list" where
  "csv_row_v2 num dateIdx closeIdx line =
     (let parts = split_on (CHR '','') line;
          c = (case at_index parts closeIdx of None \<Rightarrow> NaN | Some s \<Rightarrow> num s)
      in case at_index parts dateIdx of
           None \<Rightarrow> []
         | Some d \<Rightarrow> if d \<noteq> [] \<and> \<not> isNaN c then [\<lparr>date = d, close = c\<rparr>] else [])"

text \<open>The comparator \<open>(a, b) => (a.date < b.date ? -1 : 1)\<close> orders rows of different
  dates by date; for rows of one date it answers 1 both ways and the language leaves their
  order to the implementation. The embedding keeps them in their order.\<close>

definition fetchPricesStooq :: "(string \<Rightarrow> jsnum) \<Rightarrow> exn + string \<Rightarrow> exn + price_row list" where
  "fetchPricesStooq num response =
     (case response of
        Inl e \<Rightarrow> Inl e
      | Inr txt \<Rightarrow>
          (let lines = split_lines (trim txt)
           in if length lines < 3 then Inl (Error ''No data'')
              else let header = split_on (CHR '','') (hd lines);
                       dateIdx = findIndex (\<lambda>h. toLowerCase h = ''date'') header;
                       closeIdx = findIndex (\<lambda>h. toLowerCase h = ''close'') header
                   in Inr (sort_key date (concat (map (csv_row_v2 num dateIdx closeIdx) (tl lines))))))"

definition fetch_v2 :: "'w env \<Rightarrow> string \<Rightarrow> string \<Rightarrow> 'w \<Rightarrow> (exn + price_row list) \<times> 'w" where
  "fetch_v2 env source symbol w =
     (if source = ''stooq''
      then (let (response, w1) = gmFetch env w symbol in (fetchPricesStooq (Number env) response, w1))
      else fetchPricesYahoo env w symbol)"

section \<open>The beta cache of version 0.2.0\<close>

text \<open>
  \<open>localStorage\<close> is a map from keys to stored strings. A stored string is embedded by
  what \<open>JSON.parse\<close> makes of it: it does not parse (the empty string, which
  \<open>getCachedBeta\<close> answers with \<open>null\<close> before parsing, included), or it is an object
  \<open>{beta, n, timestamp}\<close> as \<open>setCachedBeta\<close> writes it. \<open>JSON.stringify\<close> writes
  \<open>null\<close> for a number that is not finite: \<open>c_beta\<close> is \<open>None\<close> then. The store has no
  quota: \<open>setItem\<close> does not throw.
\<close>

record cache_data =
  c_beta :: "real option"
  c_n :: nat
  c_timestamp :: int

datatype stored = Unparseable | Entry cache_data

type_synonym storage = "string \<rightharpoonup> stored"

definition CACHE_PREFIX :: string where
  "CACHE_PREFIX = ''mb_beta_cache_v2_''"

definition CACHE_DURATION_MS :: int where
  "CACHE_DURATION_MS = 24 * 60 * 60 * 1000"

text \<open>The decimal form of the lookback in the key (integers below \<open>10^21\<close> print so).\<close>

fun string_of_nat :: "nat \<Rightarrow> string" where
  "string_of_nat k =
     (if k < 10 then [char_of (48 + k)]
      else string_of_nat (k div 10) @ [char_of (48 + k mod 10)])"

definition string_of_int :: "int \<Rightarrow> string" where
  "string_of_int i = (if i < 0 then CHR ''-'' # string_of_nat (nat (- i)) else string_of_nat (nat i))"

definition cache_key :: "string \<Rightarrow> string \<Rightarrow> string \<Rightarrow> int \<Rightarrow> string" where
  "cache_key source symbol market lookback =
     CACHE_PREFIX @ source @ ''_'' @ symbol @ ''_'' @ market @ ''_'' @ string_of_int lookback"

definition json_number :: "jsnum \<Rightarrow> real option" where
  "json_number x = (case x of Num a \<Rightarrow> Some a | _ \<Rightarrow> None)"

definition getCachedBeta ::
  "'w env \<Rightarrow> string \<Rightarrow> string \<Rightarrow> string \<Rightarrow> int \<Rightarrow> 'w \<times> storage \<Rightarrow> cache_data option \<times> ('w \<times> storage)" where
  "getCachedBeta env source symbol market lookback s =
     (let key = cache_key source symbol market lookback; w = fst s; st = snd s
      in case st key of
           None \<Rightarrow> (None, (w, st))
         | Some Unparseable \<Rightarrow> (None, (w, st))
         | Some (Entry d) \<Rightarrow>
             (let (t, w1) = dateNow env w
              in if t - c_timestamp d > CACHE_DURATION_MS
                 then (None, (w1, st(key := None)))
                 else (Some d, (w1, st))))"

definition setCachedBeta ::
  "'w env \<Rightarrow> string \<Rightarrow> string \<Rightarrow> string \<Rightarrow> int \<Rightarrow> jsnum \<Rightarrow> nat \<Rightarrow> 'w \<times> storage \<Rightarrow> 'w \<times> storage" where
  "setCachedBeta env source symbol market lookback b k s =
     (let key = cache_key source symbol market lookback; w = fst s; st = snd s;
          (t, w1) = dateNow env w
      in (w1, st(key \<mapsto> Entry \<lparr>c_beta = json_number b, c_n = k, c_timestamp = t\<rparr>)))"

section \<open>Holdings and their weights\<close>

record holding =
  ticker :: string
  weight :: jsnum

text \<open>\<open>safeNum\<close>: the characters \<open>$\<close>, \<open>,\<close> and \<open>%\<close> are removed, the rest is
  trimmed and converted; anything not finite becomes NaN.\<close>

definition safeNum :: "(string \<Rightarrow> jsnum) \<Rightarrow> string \<Rightarrow> jsnum" where
  "safeNum num x =
     (let k = num (trim (filter (\<lambda>c. c \<notin> {CHR ''$'', CHR '','', CHR ''%''}) x))
      in if isFinite k then k else NaN)"

text \<open>Version 0.1.0, \<open>parseHoldings\<close>: one line \<open>TICKER, WEIGHT\<close>.\<close>

definition holding_of_line_v1 :: "(string \<Rightarrow> jsnum) \<Rightarrow> string \<Rightarrow> holding list" where
  "holding_of_line_v1 num line =
     (case map trim (split_on (CHR '','') line) of
        t # rawW # _ \<Rightarrow>
          (let w = safeNum num rawW
           in if \<not> isFinite w then []
              else let w = (if CHR ''%'' \<in> set rawW then js_div w (Num 100) else w)
                   in if \<not> js_gt w (Num 0) then [] else [\<lparr>ticker = t, weight = w\<rparr>])
      | _ \<Rightarrow> [])"

definition parseHoldings_v1 :: "(string \<Rightarrow> jsnum) \<Rightarrow> string \<Rightarrow> holding list" where
  "parseHoldings_v1 num text =
     concat (map (holding_of_line_v1 num)
       (filter (\<lambda>l. l \<noteq> []) (map trim (split_lines text))))"

text \<open>Version 0.2.0: the lines are split at line feeds and kept when they are not blank.
  A line without a comma has the weight \<open>undefined\<close>, whose number is NaN.\<close>

definition holding_of_line_v2 :: "(string \<Rightarrow> jsnum) \<Rightarrow> string \<Rightarrow> holding list" where
  "holding_of_line_v2 num line =
     (case map trim (split_on (CHR '','') line) of
        t # wRaw # _ \<Rightarrow>
          (let w = safeNum num wRaw;
               w = (if CHR ''%'' \<in> set wRaw then js_div w (Num 100) else w)
           in if t \<noteq> [] \<and> js_gt w (Num 0) then [\<lparr>ticker = t, weight = w\<rparr>] else [])
      | _ \<Rightarrow> [])"

definition parseHoldings_v2 :: "(string \<Rightarrow> jsnum) \<Rightarrow> string \<Rightarrow> holding list" where
  "parseHoldings_v2 num text =
     concat (map (holding_of_line_v2 num)
       (filter (\<lambda>l. trim l \<noteq> []) (split_on (CHR 0x0A) text)))"

text \<open>Version 0.1.0 throws when the sum is not positive; version 0.2.0 throws when there
  is no holding and divides without looking at the sum.\<close>

definition normalizeWeights_v1 :: "holding list \<Rightarrow> exn + holding list" where
  "normalizeWeights_v1 holdings =
     (let wSum = foldl (\<lambda>s h. js_add s (weight h)) (Num 0) holdings
      in if \<not> js_gt wSum (Num 0) then Inl (Error ''Weights sum to 0.'')
         else Inr (map (\<lambda>h. h\<lparr>weight := js_div (weight h) wSum\<rparr>) holdings))"

definition normalizeWeights_v2 :: "holding list \<Rightarrow> exn + holding list" where
  "normalizeWeights_v2 holdings =
     (if holdings = [] then Inl (Error ''No holdings.'')
      else let wSum = foldl (\<lambda>s h. js_add s (weight h)) (Num 0) holdings
           in Inr (map (\<lambda>h. h\<lparr>weight := js_div (weight h) wSum\<rparr>) holdings))"

section \<open>The calculation of version 0.1.0\<close>

text \<open>How a click on the button ends: the \<open>catch\<close> shows the message of an exception,
  the handler returns early on an empty list of holdings, or the results are rendered.\<close>

datatype 'a outcome = Failed exn | NoHoldings | Done 'a

record result_v1 =
  res_ticker :: string
  res_stooq :: string
  res_weight :: jsnum
  res_beta :: jsnum
  res_n :: nat

definition DEFAULT_MARKET :: string where
  "DEFAULT_MARKET = ''spy.us''"

text \<open>\<open>Math.max(60, Math.min(1500, Math.floor(safeNum(value) || 252)))\<close>.\<close>

definition lookback_v1 :: "(string \<Rightarrow> jsnum) \<Rightarrow> string \<Rightarrow> int" where
  "lookback_v1 num txt =
     (let v = (case safeNum num txt of Num a \<Rightarrow> (if a = 0 then 252 else \<lfloor>a\<rfloor>) | _ \<Rightarrow> 252)
      in max 60 (min 1500 v))"

text \<open>The row the loop pushes for a holding whose prices arrived.\<close>

definition estimate_v1 :: "holding \<Rightarrow> string \<Rightarrow> jsnum list \<times> jsnum list \<Rightarrow> result_v1" where
  "estimate_v1 h symbol aligned =
     \<lparr>res_ticker = ticker h, res_stooq = symbol, res_weight = weight h,
      res_beta = betaFromReturns (fst aligned) (snd aligned),
      res_n = min (length (fst aligned)) (length (snd aligned))\<rparr>"

text \<open>The loop over the holdings. There is no \<open>try\<close> inside it: an exception of
  \<open>fetchPrices\<close> leaves the loop. A holding whose symbol is empty is passed over.\<close>

fun loop_v1 :: "'w env \<Rightarrow> int \<Rightarrow> return_row list \<Rightarrow> holding list \<Rightarrow> 'w \<Rightarrow> (exn + result_v1 list) \<times> 'w" where
  "loop_v1 env lookback marketRets [] w = (Inr [], w)"
| "loop_v1 env lookback marketRets (h # hs) w =
     (let symbol = normalizeToStooqSymbol (ticker h)
      in if symbol = [] then loop_v1 env lookback marketRets hs w
         else (case fetchPrices_io_v1 env symbol w of
                 (Inl e, w1) \<Rightarrow> (Inl e, w1)
               | (Inr assetPrices, w1) \<Rightarrow>
                   (let assetRets = toReturns_v1 (slice_from (- (lookback + 5)) assetPrices);
                        row = estimate_v1 h symbol (alignReturns assetRets marketRets)
                    in case loop_v1 env lookback marketRets hs w1 of
                         (Inl e, w2) \<Rightarrow> (Inl e, w2)
                       | (Inr rows, w2) \<Rightarrow> (Inr (row # rows), w2))))"

definition portfolioBeta_v1 :: "result_v1 list \<Rightarrow> jsnum" where
  "portfolioBeta_v1 results =
     foldl (\<lambda>s r. js_add s (js_mul (res_weight r) (if isFinite (res_beta r) then res_beta r else Num 0)))
       (Num 0) results"

definition calc_v1 ::
  "'w env \<Rightarrow> string \<Rightarrow> string \<Rightarrow> string \<Rightarrow> 'w \<Rightarrow> (result_v1 list \<times> jsnum) outcome \<times> 'w" where
  "calc_v1 env marketInput lookbackInput holdingsText w =
     (let marketSym = (let s = normalizeToStooqSymbol marketInput in if s = [] then DEFAULT_MARKET else s);
          lookback = lookback_v1 (Number env) lookbackInput;
          holdings = parseHoldings_v1 (Number env) holdingsText
      in if holdings = [] then (NoHoldings, w)
         else (case normalizeWeights_v1 holdings of
                 Inl e \<Rightarrow> (Failed e, w)
               | Inr hs \<Rightarrow>
                   (case fetchPrices_io_v1 env marketSym w of
                      (Inl e, w1) \<Rightarrow> (Failed e, w1)
                    | (Inr marketPrices, w1) \<Rightarrow>
                        (let marketRets = toReturns_v1 (slice_from (- (lookback + 5)) marketPrices)
                         in case loop_v1 env lookback marketRets hs w1 of
                              (Inl e, w2) \<Rightarrow> (Failed e, w2)
                            | (Inr results, w2) \<Rightarrow> (Done (results, portfolioBeta_v1 results), w2)))))"

section \<open>The calculation of version 0.2.0\<close>

text \<open>A result row \<open>{...h, beta, n, cached}\<close> or \<open>{...h, beta: NaN, n: 0, error: true}\<close>.
  The beta of a cached row is what the store held: \<open>None\<close> is \<open>null\<close>.\<close>

record result_v2 =
  r2_ticker :: string
  r2_weight :: jsnum
  r2_beta :: "jsnum option"
  r2_n :: nat
  r2_cached :: bool
  r2_error :: bool

definition cached_row :: "holding \<Rightarrow> cache_data \<Rightarrow> result_v2" where
  "cached_row h d =
     \<lparr>r2_ticker = ticker h, r2_weight = weight h,
      r2_beta = (case c_beta d of None \<Rightarrow> None | Some b \<Rightarrow> Some (Num b)),
      r2_n = c_n d, r2_cached = True, r2_error = False\<rparr>"

definition failed_row :: "holding \<Rightarrow> result_v2" where
  "failed_row h =
     \<lparr>r2_ticker = ticker h, r2_weight = weight h, r2_beta = Some NaN, r2_n = 0,
      r2_cached = False, r2_error = True\<rparr>"

definition computed_row :: "holding \<Rightarrow> jsnum \<Rightarrow> nat \<Rightarrow> result_v2" where
  "computed_row h b k =
     \<lparr>r2_ticker = ticker h, r2_weight = weight h, r2_beta = Some b, r2_n = k,
      r2_cached = False, r2_error = False\<rparr>"

text \<open>\<open>holdings.some(h => !getCachedBeta(...))\<close> stops at the first holding without
  a cache entry.\<close>

fun some_uncached ::
  "'w env \<Rightarrow> string \<Rightarrow> string \<Rightarrow> int \<Rightarrow> holding list \<Rightarrow> 'w \<times> storage \<Rightarrow> bool \<times> ('w \<times> storage)" where
  "some_uncached env source marketSym lookback [] s = (False, s)"
| "some_uncached env source marketSym lookback (h # hs) s =
     (case getCachedBeta env source (normalizeTicker (ticker h) source) marketSym lookback s of
        (None, s1) \<Rightarrow> (True, s1)
      | (Some d, s1) \<Rightarrow> some_uncached env source marketSym lookback hs s1)"

text \<open>The row of a holding whose beta was computed: \<open>{...h, beta, n: asset.length,
  cached: false}\<close>.\<close>

definition estimate_v2 :: "holding \<Rightarrow> jsnum list \<times> jsnum list \<Rightarrow> result_v2" where
  "estimate_v2 h aligned =
     computed_row h (calculateBeta (fst aligned) (snd aligned)) (length (fst aligned))"

text \<open>The part of the loop body inside \<open>try\<close>, after the request has come back.
  \<open>alignReturns(assetRets, null)\<close> throws a \<open>TypeError\<close> when the market series was
  not fetched. The estimate is stored only when it is not NaN.\<close>

definition compute_v2 ::
  "'w env \<Rightarrow> string \<Rightarrow> string \<Rightarrow> string \<Rightarrow> int \<Rightarrow> return_row list option \<Rightarrow> holding \<Rightarrow>
   price_row list \<Rightarrow> 'w \<times> storage \<Rightarrow> (exn + result_v2) \<times> ('w \<times> storage)" where
  "compute_v2 env source symbol marketSym lookback marketRets h prices s =
     (case marketRets of
        None \<Rightarrow> (Inl TypeError, s)
      | Some mr \<Rightarrow>
          (let assetRets = toReturns_v2 (slice_from (- (lookback + 10)) prices);
               aligned = alignReturns assetRets mr;
               b = calculateBeta (fst aligned) (snd aligned);
               s1 = (if \<not> isNaN b
                     then setCachedBeta env source symbol marketSym lookback b (length (fst aligned)) s
                     else s)
           in (Inr (estimate_v2 h aligned), s1)))"

text \<open>The loop body for the \<open>i\<close>-th holding, \<open>i\<close> counted from 1: a cache hit, or the
  \<open>try\<close> with its \<open>catch\<close>.\<close>

definition process_holding_v2 ::
  "'w env \<Rightarrow> string \<Rightarrow> string \<Rightarrow> int \<Rightarrow> return_row list option \<Rightarrow> nat \<Rightarrow> holding \<Rightarrow>
   'w \<times> storage \<Rightarrow> result_v2 \<times> ('w \<times> storage)" where
  "process_holding_v2 env source marketSym lookback marketRets i h s =
     (let symbol = normalizeTicker (ticker h) source
      in case getCachedBeta env source symbol marketSym lookback s of
           (Some d, s1) \<Rightarrow> (cached_row h d, s1)
         | (None, s1) \<Rightarrow>
             (let w2 = (if 1 < i then sleep env (fst s1) else fst s1)
              in case fetch_v2 env source symbol w2 of
                   (Inl e, w3) \<Rightarrow> (failed_row h, (w3, snd s1))
                 | (Inr prices, w3) \<Rightarrow>
                     (case compute_v2 env source symbol marketSym lookback marketRets h prices (w3, snd s1) of
                        (Inl e, s2) \<Rightarrow> (failed_row h, s2)
                      | (Inr row, s2) \<Rightarrow> (row, s2))))"

fun loop_v2 ::
  "'w env \<Rightarrow> string \<Rightarrow> string \<Rightarrow> int \<Rightarrow> return_row list option \<Rightarrow> nat \<Rightarrow> holding list \<Rightarrow>
   'w \<times> storage \<Rightarrow> result_v2 list \<times> ('w \<times> storage)" where
  "loop_v2 env source marketSym lookback marketRets i [] s = ([], s)"
| "loop_v2 env source marketSym lookback marketRets i (h # hs) s =
     (let (row, s1) = process_holding_v2 env source marketSym lookback marketRets i h s;
          (rows, s2) = loop_v2 env source marketSym lookback marketRets (Suc i) hs s1
      in (row # rows, s2))"

subsection \<open>renderTable and its recalc\<close>

text \<open>\<open>x.toFixed(2)\<close> read back by \<open>parseFloat\<close>: the nearest multiple of one
  hundredth, a tie going away from zero; from \<open>10^21\<close> on the number prints in full.\<close>

definition toFixed2 :: "real \<Rightarrow> real" where
  "toFixed2 x =
     (if 10 ^ 21 \<le> \<bar>x\<bar> then x
      else sgn x * real_of_int \<lfloor>\<bar>x\<bar> * 100 + 1 / 2\<rfloor> / 100)"

text \<open>A table row: the weight in \<open>data-w\<close> and the number \<open>recalc\<close> reads from the
  input field. The field is empty for NaN, and a number field does not take the text of
  an infinity; \<open>parseFloat\<close> of the empty text is NaN. \<open>null.toFixed\<close> throws.\<close>

record table_row =
  tr_ticker :: string
  tr_weight :: jsnum
  tr_input :: jsnum

definition table_row_of :: "result_v2 \<Rightarrow> exn + table_row" where
  "table_row_of r =
     (case r2_beta r of
        None \<Rightarrow> Inl TypeError
      | Some b \<Rightarrow>
          Inr \<lparr>tr_ticker = r2_ticker r, tr_weight = r2_weight r,
               tr_input = (case b of Num x \<Rightarrow> Num (toFixed2 x) | _ \<Rightarrow> NaN)\<rparr>)"

fun table_rows :: "result_v2 list \<Rightarrow> exn + table_row list" where
  "table_rows [] = Inr []"
| "table_rows (r # rs) =
     (case table_row_of r of
        Inl e \<Rightarrow> Inl e
      | Inr row \<Rightarrow> (case table_rows rs of Inl e \<Rightarrow> Inl e | Inr rows \<Rightarrow> Inr (row # rows)))"

text \<open>\<open>results.sort((a, b) => b.weight - a.weight)\<close>: larger weights first, rows of
  equal weight in their order.\<close>

fun insert_desc :: "result_v2 \<Rightarrow> result_v2 list \<Rightarrow> result_v2 list" where
  "insert_desc x [] = [x]"
| "insert_desc x (y # ys) =
     (if js_gt (r2_weight y) (r2_weight x) then y # insert_desc x ys else x # y # ys)"

definition sort_desc :: "result_v2 list \<Rightarrow> result_v2 list" where
  "sort_desc rs = foldr insert_desc rs []"

text \<open>\<open>recalc\<close>: the total is \<open>sum\<close> when \<open>wTotal > 0\<close> (shown with three decimals)
  and a dash, \<open>None\<close>, otherwise.\<close>

definition recalc :: "table_row list \<Rightarrow> jsnum option" where
  "recalc rows =
     (let (sum, wTotal) =
            foldl (\<lambda>(sum, wTotal) row.
                     if \<not> isNaN (tr_input row)
                     then (js_add sum (js_mul (tr_weight row) (tr_input row)),
                           js_add wTotal (tr_weight row))
                     else (sum, wTotal))
              (Num 0, Num 0) rows
      in if js_gt wTotal (Num 0) then Some sum else None)"

definition renderTable :: "result_v2 list \<Rightarrow> exn + (table_row list \<times> jsnum option)" where
  "renderTable results =
     (case table_rows (sort_desc results) of
        Inl e \<Rightarrow> Inl e
      | Inr rows \<Rightarrow> Inr (rows, recalc rows))"

subsection \<open>The click handler\<close>

text \<open>\<open>lookback\<close> is the integer \<open>parseInt(value) || 252\<close>.\<close>

definition fetch_market_v2 ::
  "'w env \<Rightarrow> string \<Rightarrow> string \<Rightarrow> int \<Rightarrow> bool \<Rightarrow> 'w \<times> storage \<Rightarrow>
   (exn + return_row list option) \<times> ('w \<times> storage)" where
  "fetch_market_v2 env source marketSym lookback needsMarket s =
     (if needsMarket
      then (case fetch_v2 env source marketSym (fst s) of
              (Inl e, w1) \<Rightarrow> (Inl e, (w1, snd s))
            | (Inr mPrices, w1) \<Rightarrow>
                (Inr (Some (toReturns_v2 (slice_from (- (lookback + 10)) mPrices))), (w1, snd s)))
      else (Inr None, s))"

definition calc_v2 ::
  "'w env \<Rightarrow> string \<Rightarrow> string \<Rightarrow> int \<Rightarrow> string \<Rightarrow> 'w \<times> storage \<Rightarrow>
   (result_v2 list \<times> table_row list \<times> jsnum option) outcome \<times> ('w \<times> storage)" where
  "calc_v2 env source marketInput lookback holdingsText s =
     (let marketSym = normalizeTicker marketInput source
      in case normalizeWeights_v2 (parseHoldings_v2 (Number env) holdingsText) of
           Inl e \<Rightarrow> (Failed e, s)
         | Inr hs \<Rightarrow>
             (let (needsMarket, s1) = some_uncached env source marketSym lookback hs s
              in case fetch_market_v2 env source marketSym lookback needsMarket s1 of
                   (Inl e, s2) \<Rightarrow> (Failed e, s2)
                 | (Inr marketRets, s2) \<Rightarrow>
                     (let (results, s3) = loop_v2 env source marketSym lookback marketRets 1 hs s2
                      in case renderTable results of
                           Inl e \<Rightarrow> (Failed e, s3)
                         | Inr table \<Rightarrow> (Done (results, table), s3))))"

section \<open>Auxiliary notions\<close>

text \<open>A string that \<open>trim\<close> leaves as it is.\<close>

definition trimmed :: "string \<Rightarrow> bool" where
  "trimmed s = (s = [] \<or> (\<not> is_space (hd s) \<and> \<not> is_space (last s)))"


definition dash :: "string \<Rightarrow> string" where
  "dash t = map (\<lambda>c. if c = CHR ''.'' then CHR ''-'' else c) t"

text \<open>What a result row adds to the portfolio beta, as a real number: the weight times
  the beta when the beta is a number, and nothing otherwise. In version 0.2.0 the beta
  enters as the input field shows it, with two decimals, and \<open>counted_weight_v2\<close> is
  the weight of a row whose field holds a number.\<close>

definition weighted_beta_v1 :: "result_v1 \<Rightarrow> real" where
  "weighted_beta_v1 r = (case (res_weight r, res_beta r) of (Num w, Num b) \<Rightarrow> w * b | _ \<Rightarrow> 0)"

definition weighted_beta_v2 :: "result_v2 \<Rightarrow> real" where
  "weighted_beta_v2 r =
     (case (r2_weight r, r2_beta r) of (Num w, Some (Num b)) \<Rightarrow> w * toFixed2 b | _ \<Rightarrow> 0)"

definition counted_weight_v2 :: "result_v2 \<Rightarrow> real" where
  "counted_weight_v2 r =
     (case (r2_weight r, r2_beta r) of (Num w, Some (Num b)) \<Rightarrow> w | _ \<Rightarrow> 0)"

text \<open>Two stores between which nothing was written (entries may have been removed), and
  two stores between which every entry written has a beta that is a number.\<close>

definition no_cache_write :: "storage \<Rightarrow> storage \<Rightarrow> bool" where
  "no_cache_write st st' = (\<forall>key. st' key = st key \<or> st' key = None)"

definition numeric_cache_writes :: "storage \<Rightarrow> storage \<Rightarrow> bool" where
  "numeric_cache_writes st st' =
     (\<forall>key. st' key = st key \<or> st' key = None
         \<or> (\<exists>b k t. st' key = Some (Entry \<lparr>c_beta = Some b, c_n = k, c_timestamp = t\<rparr>)))"


text \<open>A sum that a summand \<open>x\<close> which is not finite has absorbed: it is NaN, or the
  infinity that \<open>x\<close> is.\<close>

definition absorbed :: "jsnum \<Rightarrow> jsnum \<Rightarrow> bool" where
  "absorbed x s =
     (case x of NaN \<Rightarrow> s = NaN | PInf \<Rightarrow> s = PInf \<or> s = NaN
              | NInf \<Rightarrow> s = NInf \<or> s = NaN | Num _ \<Rightarrow> True)"

section \<open>Sample inputs\<close>

text \<open>
  The inputs at which the theorems below are instantiated. \<open>decimal_Number\<close> is the
  conversion of a string to a number on the empty string and on strings of decimal
  digits, which are the strings the sample texts hold as numbers; it answers NaN on
  every other string.
\<close>

definition is_digit :: "char \<Rightarrow> bool" where
  "is_digit c = (CHR ''0'' \<le> c \<and> c \<le> CHR ''9'')"

definition decimal_Number :: "string \<Rightarrow> jsnum" where
  "decimal_Number s =
     (if s = [] then Num 0
      else if list_all is_digit s
           then Num (real (foldl (\<lambda>a c. 10 * a + (of_char c - 48)) (0::nat) s))
           else NaN)"

text \<open>Twenty-two trading days; the closes alternate between \<open>lo\<close> and \<open>hi\<close>.\<close>

definition sample_history :: "real \<Rightarrow> real \<Rightarrow> price_row list" where
  "sample_history lo hi =
     map (\<lambda>k. \<lparr>date = ''2024-01-'' @ string_of_nat (10 + k),
                close = Num (if even k then lo else hi)\<rparr>) [0..<22]"

text \<open>A Stooq answer of a header and three days.\<close>

definition sample_csv :: string where
  "sample_csv = ''Date,Open,High,Low,Close,Volume'' @ [CHR 0x0D, CHR 0x0A] @
                ''2024-01-02,99,102,98,100,5000'' @ [CHR 0x0D, CHR 0x0A] @
                ''2024-01-03,100,111,100,110,6000'' @ [CHR 0x0D, CHR 0x0A] @
                ''2024-01-04,110,110,98,99,7000'' @ [CHR 0x0D, CHR 0x0A]"

text \<open>
  A world is the clock in milliseconds. Stooq answers for \<open>spy.us\<close> only, Yahoo
  answers for every symbol but \<open>FAIL\<close>; a request takes a quarter of a second.
\<close>

definition sample_env :: "int env" where
  "sample_env =
     \<lparr>gmFetch = (\<lambda>w symbol. (if symbol = ''spy.us'' then Inr sample_csv
                               else Inl (Error ''HTTP 404''), w + 250)),
      fetchPricesYahoo = (\<lambda>w symbol. (if symbol = ''FAIL'' then Inl (Error ''HTTP 404'')
                                        else if symbol = ''SPY'' then Inr (sample_history 100 110)
                                        else Inr (sample_history 100 120), w + 250)),
      Number = decimal_Number,
      dateNow = (\<lambda>w. (w, w)),
      sleep = (\<lambda>w. w + 1000)\<rparr>"

text \<open>The returns of a sample history, the holdings of the sample text after
  normalisation, and what the calculations make of them.\<close>

definition sample_returns :: "real \<Rightarrow> real \<Rightarrow> return_row list" where
  "sample_returns lo hi =
     map (\<lambda>k. \<lparr>rdate = ''2024-01-'' @ string_of_nat (11 + k),
                rvalue = Num (if even k then hi / lo - 1 else lo / hi - 1)\<rparr>) [0..<21]"

definition sample_holdings :: "holding list" where
  "sample_holdings =
     [\<lparr>ticker = ''AAA'', weight = Num (1 / 4)\<rparr>, \<lparr>ticker = ''FAIL'', weight = Num (1 / 4)\<rparr>,
      \<lparr>ticker = ''BBB'', weight = Num (1 / 2)\<rparr>]"

definition sample_results :: "result_v2 list" where
  "sample_results =
     [\<lparr>r2_ticker = ''AAA'', r2_weight = Num (1 / 4), r2_beta = Some (Num (121 / 63)), r2_n = 21,
        r2_cached = False, r2_error = False\<rparr>,
      \<lparr>r2_ticker = ''FAIL'', r2_weight = Num (1 / 4), r2_beta = Some NaN, r2_n = 0,
        r2_cached = False, r2_error = True\<rparr>,
      \<lparr>r2_ticker = ''BBB'', r2_weight = Num (1 / 2), r2_beta = Some (Num (121 / 63)), r2_n = 21,
        r2_cached = False, r2_error = False\<rparr>]"

definition sample_store :: storage where
  "sample_store =
     [''mb_beta_cache_v2_yahoo_AAA_SPY_252'' \<mapsto>
        Entry \<lparr>c_beta = Some (121 / 63), c_n = 21, c_timestamp = 500\<rparr>,
      ''mb_beta_cache_v2_yahoo_BBB_SPY_252'' \<mapsto>
        Entry \<lparr>c_beta = Some (121 / 63), c_n = 21, c_timestamp = 3000\<rparr>]"

definition sample_rows :: "price_row list" where
  "sample_rows = [\<lparr>date = ''2024-01-02'', close = Num 100\<rparr>, \<lparr>date = ''2024-01-03'', close = Num 110\<rparr>,
                  \<lparr>date = ''2024-01-04'', close = Num 99\<rparr>]"

definition sample_results_v1 :: "result_v1 list" where
  "sample_results_v1 =
     [\<lparr>res_ticker = ''SPY'', res_stooq = ''spy.us'', res_weight = Num (1 / 4), res_beta = Num 1, res_n = 2\<rparr>,
      \<lparr>res_ticker = ''SPY'', res_stooq = ''spy.us'', res_weight = Num (3 / 4), res_beta = Num 1, res_n = 2\<rparr>]"


section \<open>Properties of the arithmetic on real vectors\<close>

lemma foldl_js_add_Num:
  "foldl js_add (Num s) (map Num xs) = Num (s + sum_list xs)"
  by (induction xs arbitrary: s) (simp_all add: add.assoc)



lemma beta_loop_Num:
  "length xs = length ys \<Longrightarrow>
   beta_loop (Num ma) (Num mb) (Num c, Num v) (map Num xs) (map Num ys)
     = (Num (c + (\<Sum>(x, y)\<leftarrow>zip xs ys. (x - ma) * (y - mb))),
        Num (v + (\<Sum>y\<leftarrow>ys. (y - mb) * (y - mb))))"
  by (induction xs ys arbitrary: c v rule: list_induct2) (simp_all add: js_sub_def add.assoc)




lemma calculateBeta_Num:
  "length a = length m \<Longrightarrow>
   calculateBeta (map Num a) (map Num m)
     = (if length m < 20 \<or> sample_variance m = 0 then NaN
        else Num (sample_covariance a m / sample_variance m))"
  apply (simp add: calculateBeta_def Let_def foldl_js_add_Num beta_loop_Num sample_variance_def sample_covariance_def mean_def)
  done


section \<open>Properties of the aligner\<close>

lemma mktMap_of_dom_aux:
  "dom (foldl (\<lambda>m x. m(rdate x \<mapsto> rvalue x)) m0 ms) = dom m0 \<union> rdate ` set ms"
  by (induction ms arbitrary: m0) auto

lemma dom_mktMap_of: "dom (mktMap_of ms) = rdate ` set ms"
  by (simp add: mktMap_of_def mktMap_of_dom_aux)

lemma align_loop_eq:
  "align_loop mm as =
     (map rvalue (filter (\<lambda>a. rdate a \<in> dom mm) as),
      map (\<lambda>a. the (mm (rdate a))) (filter (\<lambda>a. rdate a \<in> dom mm) as))"
  by (induction as) (auto split: option.splits)


section \<open>Properties of characters and strings\<close>

lemma char_le_iff_nat: "(c \<le> d) = (of_char c \<le> (of_char d :: nat))"
  by (simp add: less_eq_char_def)

lemma is_upper_nat: "is_upper c = (65 \<le> (of_char c :: nat) \<and> of_char c \<le> (90 :: nat))"
  by (simp add: is_upper_def char_le_iff_nat)

lemma is_lower_nat: "is_lower c = (97 \<le> (of_char c :: nat) \<and> of_char c \<le> (122 :: nat))"
  by (simp add: is_lower_def char_le_iff_nat)

lemma is_space_nat: "is_space c = ((of_char c :: nat) \<in> {32, 9, 10, 11, 12, 13})"
proof -
  have "(c = d) = (of_char c = (of_char d :: nat))" for d by simp
  then show ?thesis by (simp add: is_space_def del: of_char_eq_iff)
qed

lemma dot_nat: "(c = CHR ''.'') = ((of_char c :: nat) = 46)"
proof -
  have "(c = d) = (of_char c = (of_char d :: nat))" for d by simp
  then show ?thesis by (simp del: of_char_eq_iff)
qed

lemma lower_char_upper: "is_upper c \<Longrightarrow> (of_char (lower_char c) :: nat) = of_char c + 32"
  by (simp add: lower_char_def is_upper_nat)

lemma lower_char_other [simp]: "\<not> is_upper c \<Longrightarrow> lower_char c = c"
  by (simp add: lower_char_def)

lemma upper_char_lower: "is_lower c \<Longrightarrow> (of_char (upper_char c) :: nat) + 32 = of_char c"
proof -
  assume l: "is_lower c"
  define k where "k = (of_char c :: nat)"
  have "97 \<le> k" "k \<le> 122" using l by (simp_all add: is_lower_nat k_def)
  then have "(k - 32) mod 256 = k - 32" "k - 32 + 32 = k" by simp_all
  then show ?thesis using l by (simp add: upper_char_def k_def)
qed

lemma upper_char_other [simp]: "\<not> is_lower c \<Longrightarrow> upper_char c = c"
  by (simp add: upper_char_def)

lemma lower_char_is_lower: "is_upper c \<Longrightarrow> is_lower (lower_char c)"
  by (simp add: is_lower_nat lower_char_upper) (simp add: is_upper_nat)

lemma upper_char_is_upper: "is_lower c \<Longrightarrow> is_upper (upper_char c)"
  using upper_char_lower[of c] by (simp add: is_upper_nat is_lower_nat)

lemma not_upper_lower: "is_lower c \<Longrightarrow> \<not> is_upper c"
  by (simp add: is_upper_nat is_lower_nat)

lemma not_upper_lower_char [simp]: "\<not> is_upper (lower_char c)"
  by (cases "is_upper c") (simp_all add: lower_char_is_lower not_upper_lower)

lemma not_lower_upper_char [simp]: "\<not> is_lower (upper_char c)"
  using not_upper_lower[of "upper_char c"] by (cases "is_lower c") (auto simp add: upper_char_is_upper)

lemma lower_char_idem [simp]: "lower_char (lower_char c) = lower_char c"
  by simp

lemma upper_char_idem [simp]: "upper_char (upper_char c) = upper_char c"
  by simp

lemma char_eqI_nat: "(of_char c :: nat) = of_char d \<Longrightarrow> c = d"
  by simp

lemma upper_lower_char [simp]: "upper_char (lower_char c) = upper_char c"
proof (cases "is_upper c")
  case True
  then have l: "is_lower (lower_char c)" by (rule lower_char_is_lower)
  have "(of_char (upper_char (lower_char c)) :: nat) + 32 = of_char c + 32"
    using upper_char_lower[OF l] lower_char_upper[OF True] by simp
  then have "upper_char (lower_char c) = c" by simp
  moreover have "\<not> is_lower c" using True not_upper_lower[of c] by blast
  then have "upper_char c = c" by simp
  ultimately show ?thesis by simp
next
  case False
  then show ?thesis by simp
qed

lemma lower_upper_char [simp]: "lower_char (upper_char c) = lower_char c"
proof (cases "is_lower c")
  case True
  then have u: "is_upper (upper_char c)" by (rule upper_char_is_upper)
  have "(of_char (lower_char (upper_char c)) :: nat) = of_char c"
    using lower_char_upper[OF u] upper_char_lower[OF True] by simp
  then have "lower_char (upper_char c) = c" by simp
  moreover have "\<not> is_upper c" using True not_upper_lower[of c] by blast
  then have "lower_char c = c" by simp
  ultimately show ?thesis by simp
next
  case False
  then show ?thesis by simp
qed

lemma is_space_not_letter: "is_space c \<Longrightarrow> \<not> is_upper c \<and> \<not> is_lower c"
  by (auto simp add: is_space_nat is_upper_nat is_lower_nat)

lemma is_space_lower [simp]: "is_space (lower_char c) = is_space c"
proof (cases "is_upper c")
  case True
  then show ?thesis
    using is_space_not_letter[of c] is_space_not_letter[of "lower_char c"] lower_char_is_lower[of c]
    by auto
next
  case False
  then show ?thesis by simp
qed

lemma is_space_upper [simp]: "is_space (upper_char c) = is_space c"
proof (cases "is_lower c")
  case True
  then show ?thesis
    using is_space_not_letter[of c] is_space_not_letter[of "upper_char c"] upper_char_is_upper[of c]
    by auto
next
  case False
  then show ?thesis by simp
qed

lemma is_letter_lower [simp]: "is_letter (lower_char c) = is_letter c"
  using lower_char_is_lower[of c] by (cases "is_upper c") (auto simp add: is_letter_def)

lemma is_letter_upper [simp]: "is_letter (upper_char c) = is_letter c"
  using upper_char_is_upper[of c] by (cases "is_lower c") (auto simp add: is_letter_def)

lemma dot_not_letter: "c = CHR ''.'' \<Longrightarrow> \<not> is_letter c"
  by (simp add: is_letter_def is_upper_nat is_lower_nat)

lemma lower_char_dot [simp]: "(lower_char c = CHR ''.'') = (c = CHR ''.'')"
  using dot_not_letter[of c] dot_not_letter[of "lower_char c"] lower_char_is_lower[of c]
  by (cases "is_upper c") (auto simp add: is_letter_def)

lemma upper_char_dot [simp]: "(upper_char c = CHR ''.'') = (c = CHR ''.'')"
  using dot_not_letter[of c] dot_not_letter[of "upper_char c"] upper_char_is_upper[of c]
  by (cases "is_lower c") (auto simp add: is_letter_def)




lemma trimmed_map:
  "(\<And>c. is_space (f c) = is_space c) \<Longrightarrow> trimmed (map f s) = trimmed s"
  by (cases s) (auto simp add: trimmed_def hd_map last_map)

lemma trimmed_toLowerCase [simp]: "trimmed (toLowerCase s) = trimmed s"
  by (simp add: toLowerCase_def trimmed_map)

lemma trimmed_toUpperCase [simp]: "trimmed (toUpperCase s) = trimmed s"
  by (simp add: toUpperCase_def trimmed_map)

lemma toLowerCase_idem [simp]: "toLowerCase (toLowerCase s) = toLowerCase s"
  by (simp add: toLowerCase_def)

lemma toUpperCase_idem [simp]: "toUpperCase (toUpperCase s) = toUpperCase s"
  by (simp add: toUpperCase_def)

lemma toUpperCase_toLowerCase [simp]: "toUpperCase (toLowerCase s) = toUpperCase s"
  by (simp add: toLowerCase_def toUpperCase_def)

lemma toLowerCase_toUpperCase [simp]: "toLowerCase (toUpperCase s) = toLowerCase s"
  by (simp add: toLowerCase_def toUpperCase_def)

lemma has_suffix_map:
  assumes "\<And>c. is_letter (f c) = is_letter c" and "\<And>c. (f c = CHR ''.'') = (c = CHR ''.'')"
  shows "has_suffix (map f t) = has_suffix t"
proof -
  have comp: "is_letter \<circ> f = is_letter" using assms(1) by (simp add: fun_eq_iff)
  have tw: "takeWhile is_letter (map f (rev t)) = map f (takeWhile is_letter (rev t))"
    by (simp add: takeWhile_map comp)
  have dw: "dropWhile is_letter (map f (rev t)) = map f (dropWhile is_letter (rev t))"
    by (simp add: dropWhile_map comp)
  show ?thesis
  proof (cases "dropWhile is_letter (rev t)")
    case Nil
    show ?thesis unfolding has_suffix_def rev_map tw dw Nil by simp
  next
    case (Cons c cs)
    show ?thesis unfolding has_suffix_def rev_map tw dw Cons by (simp add: assms(2))
  qed
qed

lemma has_suffix_toLowerCase [simp]: "has_suffix (toLowerCase t) = has_suffix t"
  by (simp add: toLowerCase_def has_suffix_map)

lemma has_suffix_toUpperCase [simp]: "has_suffix (toUpperCase t) = has_suffix t"
  by (simp add: toUpperCase_def has_suffix_map)


lemma set_toLowerCase_dot [simp]: "(CHR ''.'' \<in> set (toLowerCase t)) = (CHR ''.'' \<in> set t)"
proof -
  have "(CHR ''.'' = lower_char c) = (CHR ''.'' = c)" for c
    using lower_char_dot[of c] by (simp only: eq_commute[of "CHR ''.''"])
  then show ?thesis by (induction t) (simp_all add: toLowerCase_def)
qed





lemma toUpperCase_Nil [simp]: "(toUpperCase t = []) = (t = [])"
  by (simp add: toUpperCase_def)






lemma trim_Nil [simp]: "trim [] = []"
  by (simp add: trim_def)



lemma set_toUpperCase_dot [simp]: "(CHR ''.'' \<in> set (toUpperCase t)) = (CHR ''.'' \<in> set t)"
proof -
  have "(CHR ''.'' = upper_char c) = (CHR ''.'' = c)" for c
    using upper_char_dot[of c] by (simp only: eq_commute[of "CHR ''.''"])
  then show ?thesis by (induction t) (simp_all add: toUpperCase_def)
qed


lemma dash_char_space: "is_space (if c = CHR ''.'' then CHR ''-'' else c) = is_space c"
  by (simp add: is_space_def)

lemma trimmed_dash [simp]: "trimmed (dash t) = trimmed t"
  unfolding dash_def by (rule trimmed_map) (rule dash_char_space)



lemma dash_idem [simp]: "dash (dash t) = dash t"
  by (simp add: dash_def)

lemma dash_Nil [simp]: "(dash t = []) = (t = [])"
  by (simp add: dash_def)


section \<open>The market map on distinct dates\<close>

lemma mktMap_of_foldl_last:
  "rdate b \<notin> rdate ` set ms \<Longrightarrow>
   foldl (\<lambda>m x. m(rdate x \<mapsto> rvalue x)) m0 ms (rdate b) = m0 (rdate b)"
  by (induction ms arbitrary: m0) (auto simp del: fun_upd_apply simp add: fun_upd_same fun_upd_other)

lemma mktMap_of_distinct_aux:
  "distinct (map rdate ms) \<Longrightarrow> b \<in> set ms \<Longrightarrow>
   foldl (\<lambda>m x. m(rdate x \<mapsto> rvalue x)) m0 ms (rdate b) = Some (rvalue b)"
proof (induction ms arbitrary: m0)
  case Nil
  then show ?case by simp
next
  case (Cons x ms)
  show ?case
  proof (cases "b = x")
    case True
    then have "rdate b \<notin> rdate ` set ms" using Cons.prems(1) by auto
    then have "foldl (\<lambda>m x. m(rdate x \<mapsto> rvalue x)) (m0(rdate x \<mapsto> rvalue x)) ms (rdate b)
        = (m0(rdate x \<mapsto> rvalue x)) (rdate b)"
      by (rule mktMap_of_foldl_last)
    then show ?thesis using True by (simp del: fun_upd_apply add: fun_upd_same fun_upd_other)
  next
    case False
    then have "b \<in> set ms" using Cons.prems(2) by simp
    moreover have "distinct (map rdate ms)" using Cons.prems(1) by simp
    ultimately show ?thesis using Cons.IH by (simp del: fun_upd_apply add: fun_upd_same fun_upd_other)
  qed
qed

lemma mktMap_of_distinct:
  "distinct (map rdate ms) \<Longrightarrow> b \<in> set ms \<Longrightarrow> mktMap_of ms (rdate b) = Some (rvalue b)"
  by (simp add: mktMap_of_def mktMap_of_distinct_aux)


section \<open>Properties of the parsed and normalised weights\<close>

lemma safeNum_cases: "safeNum num x = NaN \<or> (\<exists>a. safeNum num x = Num a)"
  by (cases "num (trim (filter (\<lambda>c. c \<notin> {CHR ''$'', CHR '','', CHR ''%''}) x))")
     (simp_all add: safeNum_def Let_def)

lemma js_gt_zero_Num: "js_gt x (Num 0) \<Longrightarrow> isFinite x \<Longrightarrow> \<exists>a. x = Num a \<and> 0 < a"
  by (cases x) (simp_all add: js_gt_def)

lemma percent_scaled_cases:
  "(if p then js_div (safeNum num x) (Num 100) else safeNum num x) = NaN
   \<or> (\<exists>a. (if p then js_div (safeNum num x) (Num 100) else safeNum num x) = Num a)"
proof -
  have "safeNum num x = NaN \<or> (\<exists>a. safeNum num x = Num a)" by (rule safeNum_cases)
  then show ?thesis
  proof
    assume "safeNum num x = NaN"
    then show ?thesis by simp
  next
    assume "\<exists>a. safeNum num x = Num a"
    then obtain a where a: "safeNum num x = Num a" by blast
    have "(if p then js_div (safeNum num x) (Num 100) else safeNum num x) = Num (if p then a / 100 else a)"
      using a by simp
    then show ?thesis by blast
  qed
qed

lemma holding_of_line_v1_positive:
  "h \<in> set (holding_of_line_v1 num line) \<Longrightarrow> \<exists>a. weight h = Num a \<and> 0 < a"
proof -
  assume h: "h \<in> set (holding_of_line_v1 num line)"
  show ?thesis
  proof (cases "map trim (split_on (CHR '','') line)")
    case Nil
    then show ?thesis using h by (simp add: holding_of_line_v1_def)
  next
    case (Cons t rest)
    show ?thesis
    proof (cases rest)
      case Nil
      then show ?thesis using h Cons by (simp add: holding_of_line_v1_def)
    next
      case (Cons rawW more)
      let ?w = "if CHR ''%'' \<in> set rawW then js_div (safeNum num rawW) (Num 100) else safeNum num rawW"
      from h \<open>map trim (split_on (CHR '','') line) = t # rest\<close> Cons
      have "js_gt ?w (Num 0) \<and> weight h = ?w"
        by (auto simp add: holding_of_line_v1_def Let_def split: if_splits)
      moreover have "?w = NaN \<or> (\<exists>a. ?w = Num a)" by (rule percent_scaled_cases)
      ultimately show ?thesis by (auto simp add: js_gt_def)
    qed
  qed
qed

lemma holding_of_line_v2_positive:
  "h \<in> set (holding_of_line_v2 num line) \<Longrightarrow> \<exists>a. weight h = Num a \<and> 0 < a"
proof -
  assume h: "h \<in> set (holding_of_line_v2 num line)"
  show ?thesis
  proof (cases "map trim (split_on (CHR '','') line)")
    case Nil
    then show ?thesis using h by (simp add: holding_of_line_v2_def)
  next
    case (Cons t rest)
    show ?thesis
    proof (cases rest)
      case Nil
      then show ?thesis using h Cons by (simp add: holding_of_line_v2_def)
    next
      case (Cons wRaw more)
      let ?w = "if CHR ''%'' \<in> set wRaw then js_div (safeNum num wRaw) (Num 100) else safeNum num wRaw"
      from h \<open>map trim (split_on (CHR '','') line) = t # rest\<close> Cons
      have "js_gt ?w (Num 0) \<and> weight h = ?w"
        by (auto simp add: holding_of_line_v2_def Let_def split: if_splits)
      moreover have "?w = NaN \<or> (\<exists>a. ?w = Num a)" by (rule percent_scaled_cases)
      ultimately show ?thesis by (auto simp add: js_gt_def)
    qed
  qed
qed

lemma parseHoldings_v1_positive:
  "h \<in> set (parseHoldings_v1 num text) \<Longrightarrow> \<exists>a. weight h = Num a \<and> 0 < a"
  by (auto simp add: parseHoldings_v1_def dest: holding_of_line_v1_positive)

lemma parseHoldings_v2_positive:
  "h \<in> set (parseHoldings_v2 num text) \<Longrightarrow> \<exists>a. weight h = Num a \<and> 0 < a"
  by (auto simp add: parseHoldings_v2_def dest: holding_of_line_v2_positive)

lemma positive_weights_list:
  "(\<And>h. h \<in> set hs \<Longrightarrow> \<exists>a. weight h = Num a \<and> 0 < a) \<Longrightarrow>
   \<exists>ws. map weight hs = map Num ws \<and> (\<forall>w\<in>set ws. 0 < w)"
proof (induction hs)
  case Nil
  then show ?case by simp
next
  case (Cons h hs)
  then obtain ws where ws: "map weight hs = map Num ws" "\<forall>w\<in>set ws. 0 < w" by auto
  from Cons.prems[of h] obtain a where a: "weight h = Num a" "0 < a" by auto
  have "map weight (h # hs) = map Num (a # ws) \<and> (\<forall>w\<in>set (a # ws). 0 < w)"
    using ws a by simp
  then show ?case by blast
qed

lemma foldl_weights_Num:
  "map weight hs = map Num ws \<Longrightarrow>
   foldl (\<lambda>s h. js_add s (weight h)) (Num s0) hs = Num (s0 + sum_list ws)"
proof (induction hs arbitrary: ws s0)
  case Nil
  then show ?case by simp
next
  case (Cons h hs)
  then obtain a rest where ws: "ws = a # rest" "weight h = Num a" "map weight hs = map Num rest"
    by (cases ws) auto
  then show ?case using Cons.IH[of rest "s0 + a"] by (simp add: add.assoc)
qed

lemma map_weight_update:
  "map weight hs = map Num ws \<Longrightarrow> 0 < t \<Longrightarrow>
   map weight (map (\<lambda>h. h\<lparr>weight := js_div (weight h) (Num t)\<rparr>) hs) = map (\<lambda>w. Num (w / t)) ws
   \<and> map ticker (map (\<lambda>h. h\<lparr>weight := js_div (weight h) (Num t)\<rparr>) hs) = map ticker hs"
proof (induction hs arbitrary: ws)
  case Nil
  then show ?case by simp
next
  case (Cons h hs)
  then obtain a rest where ws: "ws = a # rest" "weight h = Num a" "map weight hs = map Num rest"
    by (cases ws) auto
  then show ?case using Cons.IH[of rest] Cons.prems(2) by simp
qed

lemma positive_sum_list: "(\<forall>w\<in>set ws. 0 < (w::real)) \<Longrightarrow> ws \<noteq> [] \<Longrightarrow> 0 < sum_list ws"
  by (induction ws) (auto intro: add_pos_nonneg sum_list_nonneg less_imp_le)


lemma normalizeWeights_v1_Num:
  assumes "map weight hs = map Num ws"
  shows "normalizeWeights_v1 hs =
     (if sum_list ws \<le> 0 then Inl (Error ''Weights sum to 0.'')
      else Inr (map (\<lambda>h. h\<lparr>weight := js_div (weight h) (Num (sum_list ws))\<rparr>) hs))"
  using foldl_weights_Num[OF assms, of 0]
  by (simp add: normalizeWeights_v1_def Let_def js_gt_def not_less)

lemma normalizeWeights_v2_Num:
  assumes "map weight hs = map Num ws"
  shows "normalizeWeights_v2 hs =
     (if hs = [] then Inl (Error ''No holdings.'')
      else Inr (map (\<lambda>h. h\<lparr>weight := js_div (weight h) (Num (sum_list ws))\<rparr>) hs))"
  using foldl_weights_Num[OF assms, of 0]
  by (simp add: normalizeWeights_v2_def Let_def)




lemma sample_holdings:
  "parseHoldings_v1 decimal_Number ''AAA, 1\<newline>BBB, 3'' =
     [\<lparr>ticker = ''AAA'', weight = Num 1\<rparr>, \<lparr>ticker = ''BBB'', weight = Num 3\<rparr>]"
  "parseHoldings_v2 decimal_Number ''AAA, 1\<newline>BBB, 3'' =
     [\<lparr>ticker = ''AAA'', weight = Num 1\<rparr>, \<lparr>ticker = ''BBB'', weight = Num 3\<rparr>]"
  "parseHoldings_v1 decimal_Number ''AAA, 0'' = []"
  "parseHoldings_v2 decimal_Number ''AAA, 0'' = []"
  by code_simp+


section \<open>Properties of the portfolio sum and of the result rows\<close>

lemma portfolioBeta_v1_fold:
  "\<forall>r\<in>set results. isFinite (res_weight r) \<Longrightarrow>
   foldl (\<lambda>s r. js_add s (js_mul (res_weight r) (if isFinite (res_beta r) then res_beta r else Num 0)))
       (Num s0) results
     = Num (s0 + sum_list (map weighted_beta_v1 results))"
proof (induction results arbitrary: s0)
  case Nil
  then show ?case by simp
next
  case (Cons r rs)
  then obtain w where w: "res_weight r = Num w" by (cases "res_weight r") auto
  have step: "js_add (Num s0) (js_mul (res_weight r) (if isFinite (res_beta r) then res_beta r else Num 0))
      = Num (s0 + weighted_beta_v1 r)"
    using w by (cases "res_beta r") (simp_all add: weighted_beta_v1_def)
  show ?case using Cons.IH[of "s0 + weighted_beta_v1 r"] Cons.prems
    by (simp add: step add.assoc)
qed

lemma mset_insert_desc: "mset (insert_desc x ys) = add_mset x (mset ys)"
  by (induction ys) simp_all

lemma mset_sort_desc: "mset (sort_desc rs) = mset rs"
  by (induction rs) (simp_all add: sort_desc_def mset_insert_desc)

lemma sum_list_sort_desc: "sum_list (map f (sort_desc rs)) = sum_list (map (f :: result_v2 \<Rightarrow> real) rs)"
proof -
  have "sum_mset (image_mset f (mset (sort_desc rs))) = sum_mset (image_mset f (mset rs))"
    by (simp add: mset_sort_desc)
  then show ?thesis by (simp add: sum_mset_sum_list flip: mset_map)
qed

lemma set_sort_desc: "set (sort_desc rs) = set rs"
  using mset_sort_desc[of rs] by (metis set_mset_mset)

lemma table_rows_all:
  "\<forall>r\<in>set rs. r2_beta r \<noteq> None \<Longrightarrow> \<exists>rows. table_rows rs = Inr rows \<and> length rows = length rs
     \<and> (\<forall>i<length rs. table_row_of (rs ! i) = Inr (rows ! i))"
proof (induction rs)
  case Nil
  then show ?case by simp
next
  case (Cons r rs)
  then obtain rows where rows: "table_rows rs = Inr rows" "length rows = length rs"
      "\<forall>i<length rs. table_row_of (rs ! i) = Inr (rows ! i)" by auto
  from Cons.prems obtain b where b: "r2_beta r = Some b" by auto
  then obtain row where row: "table_row_of r = Inr row" by (simp add: table_row_of_def)
  have "table_rows (r # rs) = Inr (row # rows)" using rows row by simp
  moreover have "\<forall>i<length (r # rs). table_row_of ((r # rs) ! i) = Inr ((row # rows) ! i)"
    using rows(3) row by (auto simp add: nth_Cons split: nat.splits)
  ultimately show ?case using rows(2) by auto
qed

lemma table_rows_null:
  "\<exists>r\<in>set rs. r2_beta r = None \<Longrightarrow> table_rows rs = Inl TypeError"
proof (induction rs)
  case Nil
  then show ?case by simp
next
  case (Cons r rs)
  show ?case
  proof (cases "r2_beta r")
    case None
    then show ?thesis by (simp add: table_row_of_def)
  next
    case (Some b)
    then have "\<exists>r\<in>set rs. r2_beta r = None" using Cons.prems by auto
    then have "table_rows rs = Inl TypeError" by (rule Cons.IH)
    then show ?thesis using Some by (simp add: table_row_of_def)
  qed
qed

lemma recalc_fold:
  "table_rows rs = Inr rows \<Longrightarrow> \<forall>r\<in>set rs. isFinite (r2_weight r) \<Longrightarrow>
   foldl (\<lambda>(sum, wTotal) row.
            if \<not> isNaN (tr_input row)
            then (js_add sum (js_mul (tr_weight row) (tr_input row)), js_add wTotal (tr_weight row))
            else (sum, wTotal))
       (Num s0, Num t0) rows
     = (Num (s0 + sum_list (map weighted_beta_v2 rs)), Num (t0 + sum_list (map counted_weight_v2 rs)))"
proof (induction rs arbitrary: rows s0 t0)
  case Nil
  then show ?case by simp
next
  case (Cons r rs)
  from Cons.prems(1) obtain row rest where rr: "table_row_of r = Inr row" "table_rows rs = Inr rest"
      "rows = row # rest"
    by (auto split: sum.splits)
  from Cons.prems(2) obtain w where w: "r2_weight r = Num w" by (cases "r2_weight r") auto
  from rr(1) obtain b where b: "r2_beta r = Some b"
      "row = \<lparr>tr_ticker = r2_ticker r, tr_weight = r2_weight r,
              tr_input = (case b of Num x \<Rightarrow> Num (toFixed2 x) | _ \<Rightarrow> NaN)\<rparr>"
    by (auto simp add: table_row_of_def split: option.splits)
  have step: "(if \<not> isNaN (tr_input row)
            then (js_add (Num s0) (js_mul (tr_weight row) (tr_input row)), js_add (Num t0) (tr_weight row))
            else (Num s0, Num t0))
      = (Num (s0 + weighted_beta_v2 r), Num (t0 + counted_weight_v2 r))"
    using w b by (cases b) (simp_all add: weighted_beta_v2_def counted_weight_v2_def)
  have "\<forall>r\<in>set rs. isFinite (r2_weight r)" using Cons.prems(2) by simp
  from Cons.IH[OF rr(2) this, of "s0 + weighted_beta_v2 r" "t0 + counted_weight_v2 r"]
  show ?case using rr(3) step by (simp add: add.assoc)
qed

lemma renderTable_total:
  assumes "\<forall>r\<in>set results. isFinite (r2_weight r)" "renderTable results = Inr (rows, tot)"
  shows "tot = (if 0 < sum_list (map counted_weight_v2 results)
                  then Some (Num (sum_list (map weighted_beta_v2 results))) else None)"
proof -
  from assms(2) have tr: "table_rows (sort_desc results) = Inr rows" and t: "tot = recalc rows"
    by (auto simp add: renderTable_def split: sum.splits)
  have fin: "\<forall>r\<in>set (sort_desc results). isFinite (r2_weight r)"
    using assms(1) by (simp add: set_sort_desc)
  note f = recalc_fold[OF tr fin, of 0 0]
  show ?thesis using f t
    by (simp add: recalc_def sum_list_sort_desc js_gt_def)
qed

lemma loop_v1_weights:
  "loop_v1 env lookback marketRets hs w = (Inr results, w') \<Longrightarrow>
   \<forall>r\<in>set results. \<exists>h\<in>set hs. res_weight r = weight h"
proof (induction hs arbitrary: w results w')
  case Nil
  then show ?case by simp
next
  case (Cons h hs)
  show ?case
  proof (cases "normalizeToStooqSymbol (ticker h) = []")
    case True
    then have "loop_v1 env lookback marketRets hs w = (Inr results, w')"
      using Cons.prems by (simp add: Let_def)
    then show ?thesis using Cons.IH by fastforce
  next
    case False
    obtain resp w1 where f: "fetchPrices_io_v1 env (normalizeToStooqSymbol (ticker h)) w = (resp, w1)"
      by (cases "fetchPrices_io_v1 env (normalizeToStooqSymbol (ticker h)) w") blast
    obtain rest w2 where l: "loop_v1 env lookback marketRets hs w1 = (rest, w2)"
      by (cases "loop_v1 env lookback marketRets hs w1") blast
    from Cons.prems False f l obtain prices rows where
      p: "resp = Inr prices" "rest = Inr rows"
      "results = estimate_v1 h (normalizeToStooqSymbol (ticker h))
                   (alignReturns (toReturns_v1 (slice_from (- (lookback + 5)) prices)) marketRets) # rows"
      by (auto simp add: Let_def split: sum.splits)
    have "\<forall>r\<in>set rows. \<exists>h\<in>set hs. res_weight r = weight h"
      using Cons.IH[of w1 rows w2] l p(2) by simp
    then show ?thesis using p(3) by (auto simp add: estimate_v1_def)
  qed
qed

lemma normalizeWeights_finite:
  assumes "\<And>h. h \<in> set hs0 \<Longrightarrow> \<exists>a. weight h = Num a \<and> 0 < a"
    and "normalizeWeights_v1 hs0 = Inr hs \<or> normalizeWeights_v2 hs0 = Inr hs"
  shows "\<forall>h\<in>set hs. \<exists>a. weight h = Num a \<and> 0 < a"
proof -
  from positive_weights_list[OF assms(1)] obtain ws where
    ws: "map weight hs0 = map Num ws" "\<forall>w\<in>set ws. 0 < w" by blast
  have ne: "hs0 \<noteq> []" using assms(2) ws(1)
    by (auto simp add: normalizeWeights_v1_Num[OF ws(1)] normalizeWeights_v2_def)
  then have "ws \<noteq> []" using ws(1) by auto
  then have pos: "0 < sum_list ws" using ws(2) by (simp add: positive_sum_list)
  have hs: "hs = map (\<lambda>h. h\<lparr>weight := js_div (weight h) (Num (sum_list ws))\<rparr>) hs0"
    using assms(2) pos ne
    by (auto simp add: normalizeWeights_v1_Num[OF ws(1)] normalizeWeights_v2_Num[OF ws(1)])
  have "map weight hs = map (\<lambda>w. Num (w / sum_list ws)) ws"
    using map_weight_update[OF ws(1) pos] hs by simp
  then have "set (map weight hs) = (\<lambda>w. Num (w / sum_list ws)) ` set ws" by (metis set_map)
  then have "\<forall>x\<in>set (map weight hs). \<exists>a. x = Num a \<and> 0 < a"
    using ws(2) pos by auto
  then show ?thesis by auto
qed

lemma process_holding_v2_fields:
  "process_holding_v2 env source marketSym lookback marketRets i h s = (row, s') \<Longrightarrow>
   r2_ticker row = ticker h \<and> r2_weight row = weight h"
  by (auto simp add: process_holding_v2_def compute_v2_def estimate_v2_def cached_row_def failed_row_def
      computed_row_def Let_def split: prod.splits option.splits sum.splits if_splits)

lemma loop_v2_fields:
  "map r2_ticker (fst (loop_v2 env source marketSym lookback marketRets i hs s)) = map ticker hs
   \<and> map r2_weight (fst (loop_v2 env source marketSym lookback marketRets i hs s)) = map weight hs"
proof (induction hs arbitrary: i s)
  case Nil
  then show ?case by simp
next
  case (Cons h hs)
  obtain row s1 where p: "process_holding_v2 env source marketSym lookback marketRets i h s = (row, s1)"
    by (cases "process_holding_v2 env source marketSym lookback marketRets i h s") blast
  obtain rows s2 where l: "loop_v2 env source marketSym lookback marketRets (Suc i) hs s1 = (rows, s2)"
    by (cases "loop_v2 env source marketSym lookback marketRets (Suc i) hs s1") blast
  have "map r2_ticker rows = map ticker hs \<and> map r2_weight rows = map weight hs"
    using Cons.IH[of "Suc i" s1] l by simp
  then show ?case using p l process_holding_v2_fields[OF p] by simp
qed


section \<open>The sample runs\<close>

text \<open>The two calculations on the sample inputs, evaluated step by step.\<close>

lemma upt_21: "[0..<21] = [0, 1, 2, 3, 4, 5, 6, 7, 8, 9, 10, 11, 12, 13, 14, 15, 16, 17, 18, 19, 20]"
  by (simp add: upt_rec)

lemma sample_values:
  "map rvalue (sample_returns lo hi) =
     map Num (map (\<lambda>k. if even k then hi / lo - 1 else lo / hi - 1) [0..<21])"
  by (simp add: sample_returns_def comp_def)

lemma sample_eval_beta:
  "calculateBeta (map rvalue (sample_returns 100 120)) (map rvalue (sample_returns 100 110)) = Num (121 / 63)"
proof -
  let ?a = "map (\<lambda>k::nat. if even k then 120 / 100 - 1 else 100 / 120 - (1::real)) [0..<21]"
  let ?m = "map (\<lambda>k::nat. if even k then 110 / 100 - 1 else 100 / 110 - (1::real)) [0..<21]"
  have len: "length ?a = length ?m" by simp
  have v: "sample_variance ?m = 21 / 2200"
    by (simp add: sample_variance_def mean_def upt_21)
  have c: "sample_covariance ?a ?m = 11 / 600"
    by (simp add: sample_covariance_def mean_def upt_21)
  have "calculateBeta (map Num ?a) (map Num ?m) =
      (if length ?m < 20 \<or> sample_variance ?m = 0 then NaN
       else Num (sample_covariance ?a ?m / sample_variance ?m))"
    by (rule calculateBeta_Num[OF len])
  also have "\<dots> = Num (121 / 63)" unfolding v c by simp
  finally show ?thesis by (simp only: sample_values)
qed


lemma alignReturns_same_dates:
  assumes "map rdate as = map rdate ms" "distinct (map rdate ms)"
  shows "alignReturns as ms = (map rvalue as, map rvalue ms)"
proof -
  have len: "length as = length ms" using assms(1) by (metis length_map)
  have all: "\<forall>a\<in>set as. rdate a \<in> rdate ` set ms"
    using assms(1) by (metis image_eqI list.set_map)
  then have keep: "filter (\<lambda>a. rdate a \<in> rdate ` set ms) as = as" by simp
  have "map (\<lambda>a. the (mktMap_of ms (rdate a))) as = map rvalue ms"
  proof (rule nth_equalityI)
    show "length (map (\<lambda>a. the (mktMap_of ms (rdate a))) as) = length (map rvalue ms)"
      using len by simp
  next
    fix i assume "i < length (map (\<lambda>a. the (mktMap_of ms (rdate a))) as)"
    then have i: "i < length as" "i < length ms" using len by simp_all
    have "rdate (as ! i) = rdate (ms ! i)" using assms(1) i by (metis nth_map)
    moreover have "mktMap_of ms (rdate (ms ! i)) = Some (rvalue (ms ! i))"
      using mktMap_of_distinct[OF assms(2)] i(2) by simp
    ultimately show "map (\<lambda>a. the (mktMap_of ms (rdate a))) as ! i = map rvalue ms ! i"
      using i by simp
  qed
  then show ?thesis
    by (simp add: alignReturns_def align_loop_eq dom_mktMap_of keep)
qed

lemma sample_eval_dates:
  "map rdate (sample_returns lo hi) = map (\<lambda>k. ''2024-01-'' @ string_of_nat (11 + k)) [0..<21]"
  by (simp add: sample_returns_def comp_def)

lemma sample_dates_distinct:
  "distinct (map (\<lambda>k. ''2024-01-'' @ string_of_nat (11 + k)) [0..<21])"
  by code_simp

lemma sample_eval_align:
  "alignReturns (sample_returns 100 120) (sample_returns 100 110)
     = (map rvalue (sample_returns 100 120), map rvalue (sample_returns 100 110))"
  by (rule alignReturns_same_dates) (simp_all only: sample_eval_dates sample_dates_distinct)

lemma sample_eval_returns:
  "toReturns_v2 (slice_from (- 262) (sample_history 100 110)) = sample_returns 100 110"
  "toReturns_v2 (slice_from (- 262) (sample_history 100 120)) = sample_returns 100 120"
  by code_simp+


lemma sample_env_fields:
  "Number sample_env = decimal_Number"
  "dateNow sample_env w = (w, w)"
  "sleep sample_env w = w + 1000"
  "fetchPricesYahoo sample_env w symbol =
     (if symbol = ''FAIL'' then Inl (Error ''HTTP 404'')
      else if symbol = ''SPY'' then Inr (sample_history 100 110)
      else Inr (sample_history 100 120), w + 250)"
  "gmFetch sample_env w symbol =
     (if symbol = ''spy.us'' then Inr sample_csv else Inl (Error ''HTTP 404''), w + 250)"
  by (simp_all add: sample_env_def)

lemma sample_eval_keys:
  "cache_key ''yahoo'' ''AAA'' ''SPY'' 252 = ''mb_beta_cache_v2_yahoo_AAA_SPY_252''"
  "cache_key ''yahoo'' ''FAIL'' ''SPY'' 252 = ''mb_beta_cache_v2_yahoo_FAIL_SPY_252''"
  "cache_key ''yahoo'' ''BBB'' ''SPY'' 252 = ''mb_beta_cache_v2_yahoo_BBB_SPY_252''"
  by code_simp+

lemma sample_eval_tickers:
  "normalizeTicker ''AAA'' ''yahoo'' = ''AAA''"
  "normalizeTicker ''FAIL'' ''yahoo'' = ''FAIL''"
  "normalizeTicker ''BBB'' ''yahoo'' = ''BBB''"
  "normalizeTicker ''SPY'' ''yahoo'' = ''SPY''"
  by code_simp+

lemma sample_eval_holdings_v2:
  "parseHoldings_v2 decimal_Number ''AAA, 1\<newline>FAIL, 1\<newline>BBB, 2'' =
     [\<lparr>ticker = ''AAA'', weight = Num 1\<rparr>, \<lparr>ticker = ''FAIL'', weight = Num 1\<rparr>,
      \<lparr>ticker = ''BBB'', weight = Num 2\<rparr>]"
  by code_simp

lemma sample_eval_length: "length (sample_returns 100 120) = 21"
  by (simp add: sample_returns_def)

lemma sample_normalized:
  "normalizeWeights_v2 (parseHoldings_v2 decimal_Number ''AAA, 1\<newline>FAIL, 1\<newline>BBB, 2'')
     = Inr sample_holdings"
  by (simp add: sample_eval_holdings_v2 normalizeWeights_v2_def sample_holdings_def)

lemma sample_needs_market:
  "some_uncached sample_env ''yahoo'' ''SPY'' 252 sample_holdings (0, Map.empty) = (True, (0, Map.empty))"
  by (simp add: sample_holdings_def getCachedBeta_def)

lemma sample_market:
  "fetch_market_v2 sample_env ''yahoo'' ''SPY'' 252 True (0, Map.empty)
     = (Inr (Some (sample_returns 100 110)), (250, Map.empty))"
  by (simp add: fetch_market_v2_def fetch_v2_def sample_env_fields sample_eval_returns)

lemma sample_loop:
  "loop_v2 sample_env ''yahoo'' ''SPY'' 252 (Some (sample_returns 100 110)) (Suc 0) sample_holdings (250, Map.empty)
     = (sample_results, (3000, sample_store))"
  by (simp add: sample_holdings_def sample_results_def sample_store_def process_holding_v2_def
      getCachedBeta_def sample_eval_tickers sample_eval_keys fetch_v2_def sample_env_fields
      compute_v2_def sample_eval_returns sample_eval_align sample_eval_beta sample_eval_length
      setCachedBeta_def json_number_def estimate_v2_def computed_row_def failed_row_def Let_def)

lemma sample_table:
  "renderTable sample_results =
     Inr ([\<lparr>tr_ticker = ''BBB'', tr_weight = Num (1 / 2), tr_input = Num (48 / 25)\<rparr>,
           \<lparr>tr_ticker = ''AAA'', tr_weight = Num (1 / 4), tr_input = Num (48 / 25)\<rparr>,
           \<lparr>tr_ticker = ''FAIL'', tr_weight = Num (1 / 4), tr_input = NaN\<rparr>],
          Some (Num (36 / 25)))"
  by (simp add: renderTable_def sample_results_def sort_desc_def js_gt_def table_row_of_def
      toFixed2_def recalc_def)

lemma sample_run_v2:
  "calc_v2 sample_env ''yahoo'' ''SPY'' 252 ''AAA, 1\<newline>FAIL, 1\<newline>BBB, 2'' (0, Map.empty) =
     (Done (sample_results,
            [\<lparr>tr_ticker = ''BBB'', tr_weight = Num (1 / 2), tr_input = Num (48 / 25)\<rparr>,
             \<lparr>tr_ticker = ''AAA'', tr_weight = Num (1 / 4), tr_input = Num (48 / 25)\<rparr>,
             \<lparr>tr_ticker = ''FAIL'', tr_weight = Num (1 / 4), tr_input = NaN\<rparr>],
            Some (Num (36 / 25))),
      (3000, sample_store))"
  by (simp add: calc_v2_def sample_env_fields(1) sample_normalized sample_eval_tickers
      sample_needs_market sample_market sample_loop sample_table)

lemma sample_eval_csv:
  "fetchPrices_v1 decimal_Number ''spy.us'' (Inr sample_csv) = Inr sample_rows"
  by code_simp

lemma sample_eval_v1:
  "parseHoldings_v1 decimal_Number ''SPY, 1\<newline>SPY, 3'' =
     [\<lparr>ticker = ''SPY'', weight = Num 1\<rparr>, \<lparr>ticker = ''SPY'', weight = Num 3\<rparr>]"
  "parseHoldings_v1 decimal_Number ''AAA, 1\<newline>BBB, 1'' =
     [\<lparr>ticker = ''AAA'', weight = Num 1\<rparr>, \<lparr>ticker = ''BBB'', weight = Num 1\<rparr>]"
  "lookback_v1 decimal_Number ''252'' = 252"
  "normalizeToStooqSymbol ''spy.us'' = ''spy.us''"
  "normalizeToStooqSymbol ''SPY'' = ''spy.us''"
  "normalizeToStooqSymbol ''AAA'' = ''aaa.us''"
  by code_simp+

lemma sample_market_v1:
  "fetchPrices_io_v1 sample_env ''spy.us'' w = (Inr sample_rows, w + 1250)"
  "fetchPrices_io_v1 sample_env ''aaa.us'' w = (Inl (Error ''HTTP 404''), w + 250)"
  by (simp add: fetchPrices_io_v1_def sample_env_fields sample_eval_csv)
     (simp add: fetchPrices_io_v1_def sample_env_fields fetchPrices_v1_def)

lemma sample_returns_v1:
  "toReturns_v1 (slice_from (- 257) sample_rows) =
     [\<lparr>rdate = ''2024-01-03'', rvalue = Num (1 / 10)\<rparr>, \<lparr>rdate = ''2024-01-04'', rvalue = Num (- (1 / 10))\<rparr>]"
  by (simp add: sample_rows_def slice_from_def js_le_def js_sub_def)

lemma sample_estimate_v1:
  "estimate_v1 h ''spy.us''
     (alignReturns
        [\<lparr>rdate = ''2024-01-03'', rvalue = Num (1 / 10)\<rparr>, \<lparr>rdate = ''2024-01-04'', rvalue = Num (- (1 / 10))\<rparr>]
        [\<lparr>rdate = ''2024-01-03'', rvalue = Num (1 / 10)\<rparr>, \<lparr>rdate = ''2024-01-04'', rvalue = Num (- (1 / 10))\<rparr>])
   = \<lparr>res_ticker = ticker h, res_stooq = ''spy.us'', res_weight = weight h, res_beta = Num 1, res_n = 2\<rparr>"
  by (simp add: estimate_v1_def alignReturns_def mktMap_of_def betaFromReturns_def variance_def
      covariance_def js_sub_def Let_def)

lemma sample_run_v1:
  "calc_v1 sample_env ''spy.us'' ''252'' ''SPY, 1\<newline>SPY, 3'' 0 = (Done (sample_results_v1, Num 1), 3750)"
  by (simp add: calc_v1_def sample_env_fields(1) sample_eval_v1 normalizeWeights_v1_def js_gt_def
      sample_market_v1 sample_returns_v1 sample_estimate_v1 portfolioBeta_v1_def sample_results_v1_def
      Let_def)

lemma sample_abort_v1:
  "calc_v1 sample_env ''spy.us'' ''252'' ''AAA, 1\<newline>BBB, 1'' 0 = (Failed (Error ''HTTP 404''), 1500)"
  by (simp add: calc_v1_def sample_env_fields(1) sample_eval_v1 normalizeWeights_v1_def js_gt_def
      sample_market_v1 sample_returns_v1 Let_def)


section \<open>calculateBeta never answers an infinity\<close>

lemma js_add_NaN_right [simp]: "js_add x NaN = NaN"
  by (cases x) simp_all

lemma js_mul_NaN_right [simp]: "js_mul x NaN = NaN"
  by (cases x) simp_all

lemma js_div_NaN_right [simp]: "js_div x NaN = NaN"
  by (cases x) simp_all

lemma absorbed_add: "absorbed x s \<Longrightarrow> absorbed x (js_add s y)"
  by (cases x; cases s; cases y) (simp_all add: absorbed_def)

lemma absorbed_self: "absorbed x (js_add s x)"
  by (cases x; cases s) (simp_all add: absorbed_def)

lemma absorbed_foldl: "absorbed x s \<Longrightarrow> absorbed x (foldl js_add s ys)"
  by (induction ys arbitrary: s) (simp_all add: absorbed_add)

lemma absorbed_sum: "x \<in> set xs \<Longrightarrow> absorbed x (foldl js_add s xs)"
proof (induction xs arbitrary: s)
  case Nil
  then show ?case by simp
next
  case (Cons y ys)
  show ?case
  proof (cases "x = y")
    case True
    then show ?thesis using absorbed_foldl[OF absorbed_self[of x s], of ys] by simp
  next
    case False
    then show ?thesis using Cons by simp
  qed
qed

lemma absorbed_mean:
  "\<not> isFinite x \<Longrightarrow> absorbed x s \<Longrightarrow> 0 < k \<Longrightarrow> js_sub x (js_div s (Num k)) = NaN"
  by (cases x; cases s) (simp_all add: absorbed_def js_sub_def)

lemma beta_loop_NaN_acc: "fst (beta_loop ma mm (NaN, v) as ms) = NaN"
  by (induction as arbitrary: v ms) (simp_all add: Let_def)

lemma beta_loop_NaN_term:
  "length as = length ms \<Longrightarrow> (a, m) \<in> set (zip as ms) \<Longrightarrow>
   js_sub a ma = NaN \<or> js_sub m mm = NaN \<Longrightarrow>
   fst (beta_loop ma mm (c, v) as ms) = NaN"
proof (induction as ms arbitrary: c v rule: list_induct2)
  case Nil
  then show ?case by simp
next
  case (Cons x xs y ys)
  show ?case
  proof (cases "(a, m) = (x, y)")
    case True
    then have "js_mul (js_sub x ma) (js_sub y mm) = NaN" using Cons.prems(2) by auto
    then show ?thesis by (simp add: Let_def beta_loop_NaN_acc)
  next
    case False
    then have "(a, m) \<in> set (zip xs ys)" using Cons.prems(1) by auto
    then show ?thesis using Cons.IH Cons.prems(2) by (simp add: Let_def)
  qed
qed

lemma all_finite_map_Num: "\<forall>x\<in>set xs. isFinite x \<Longrightarrow> \<exists>rs. xs = map Num rs"
proof (induction xs)
  case Nil
  then show ?case by simp
next
  case (Cons x xs)
  then obtain rs where "xs = map Num rs" by auto
  moreover obtain r where "x = Num r" using Cons.prems by (cases x) auto
  ultimately have "x # xs = map Num (r # rs)" by simp
  then show ?case by (rule exI[of _ "r # rs"])
qed

lemma calculateBeta_not_finite_input:
  assumes len: "length asset = length mkt"
    and bad: "(\<exists>x\<in>set asset. \<not> isFinite x) \<or> (\<exists>y\<in>set mkt. \<not> isFinite y)"
  shows "calculateBeta asset mkt = NaN"
proof (cases "length asset < 20")
  case True
  then show ?thesis by (simp add: calculateBeta_def)
next
  case False
  let ?k = "real (length asset)"
  let ?ma = "js_div (foldl js_add (Num 0) asset) (Num ?k)"
  let ?mm = "js_div (foldl js_add (Num 0) mkt) (Num ?k)"
  have k: "0 < ?k" using False by (cases asset) simp_all
  have "\<exists>a m. (a, m) \<in> set (zip asset mkt) \<and> (js_sub a ?ma = NaN \<or> js_sub m ?mm = NaN)"
    using bad
  proof
    assume "\<exists>x\<in>set asset. \<not> isFinite x"
    then obtain x where x: "x \<in> set asset" "\<not> isFinite x" by blast
    obtain y where "(x, y) \<in> set (zip asset mkt)"
      using in_set_impl_in_set_zip1[OF len x(1)] by blast
    moreover have "js_sub x ?ma = NaN"
      using absorbed_mean[OF x(2) absorbed_sum[OF x(1)] k] by simp
    ultimately show ?thesis by blast
  next
    assume "\<exists>y\<in>set mkt. \<not> isFinite y"
    then obtain y where y: "y \<in> set mkt" "\<not> isFinite y" by blast
    obtain x where "(x, y) \<in> set (zip asset mkt)"
      using in_set_impl_in_set_zip2[OF len y(1)] by blast
    moreover have "js_sub y ?mm = NaN"
      using absorbed_mean[OF y(2) absorbed_sum[OF y(1)] k] by simp
    ultimately show ?thesis by blast
  qed
  then obtain a m where am: "(a, m) \<in> set (zip asset mkt)" "js_sub a ?ma = NaN \<or> js_sub m ?mm = NaN"
    by blast
  have nan: "fst (beta_loop ?ma ?mm (Num 0, Num 0) asset mkt) = NaN"
    using beta_loop_NaN_term[OF len am] by simp
  obtain cv vm where bl: "beta_loop ?ma ?mm (Num 0, Num 0) asset mkt = (cv, vm)"
    by (cases "beta_loop ?ma ?mm (Num 0, Num 0) asset mkt") blast
  then have "cv = NaN" using nan by simp
  then show ?thesis using False bl
    by (simp add: calculateBeta_def Let_def)
qed

lemma calculateBeta_Num_or_NaN:
  assumes "length asset = length mkt"
  shows "calculateBeta asset mkt = NaN \<or> (\<exists>b. calculateBeta asset mkt = Num b)"
proof (cases "(\<forall>x\<in>set asset. isFinite x) \<and> (\<forall>y\<in>set mkt. isFinite y)")
  case True
  then obtain a m where am: "asset = map Num a" "mkt = map Num m"
    using all_finite_map_Num[of asset] all_finite_map_Num[of mkt] by blast
  then have "length a = length m" using assms by simp
  then show ?thesis using calculateBeta_Num[of a m] am by simp
next
  case False
  then have "calculateBeta asset mkt = NaN"
    using calculateBeta_not_finite_input[OF assms] by blast
  then show ?thesis by simp
qed

section \<open>What a batch writes to the cache\<close>

lemma alignReturns_lengths: "length (fst (alignReturns a m)) = length (snd (alignReturns a m))"
  by (simp add: alignReturns_def align_loop_eq)

lemma no_cache_write_refl [simp]: "no_cache_write st st"
  by (simp add: no_cache_write_def)


lemma numeric_cache_writes_refl [simp]: "numeric_cache_writes st st"
  by (simp add: numeric_cache_writes_def)

lemma numeric_cache_writes_trans:
  "numeric_cache_writes a b \<Longrightarrow> numeric_cache_writes b c \<Longrightarrow> numeric_cache_writes a c"
  unfolding numeric_cache_writes_def by metis

lemma no_write_numeric: "no_cache_write a b \<Longrightarrow> numeric_cache_writes a b"
  unfolding no_cache_write_def numeric_cache_writes_def by blast


lemma getCachedBeta_store:
  "getCachedBeta env source symbol market lookback s = (r, s') \<Longrightarrow> no_cache_write (snd s) (snd s')"
  by (auto simp add: getCachedBeta_def no_cache_write_def Let_def
      split: option.splits stored.splits prod.splits if_splits)

lemma getCachedBeta_miss:
  "getCachedBeta env source symbol market lookback s = (None, s') \<Longrightarrow>
   snd s' (cache_key source symbol market lookback) = None
   \<or> snd s' (cache_key source symbol market lookback) = Some Unparseable"
  by (auto simp add: getCachedBeta_def Let_def
      split: option.splits stored.splits prod.splits if_splits)

lemma getCachedBeta_of_absent:
  "snd s (cache_key source symbol market lookback) = None
   \<or> snd s (cache_key source symbol market lookback) = Some Unparseable \<Longrightarrow>
   fst (getCachedBeta env source symbol market lookback s) = None"
  by (auto simp add: getCachedBeta_def Let_def)

lemma setCachedBeta_numeric:
  "numeric_cache_writes (snd s) (snd (setCachedBeta env source symbol market lookback (Num b) k s))"
  by (simp add: setCachedBeta_def numeric_cache_writes_def json_number_def Let_def split: prod.splits)

lemma setCachedBeta_entry:
  "\<exists>t. snd (setCachedBeta env source symbol market lookback (Num b) k s)
          (cache_key source symbol market lookback)
        = Some (Entry \<lparr>c_beta = Some b, c_n = k, c_timestamp = t\<rparr>)"
  by (simp add: setCachedBeta_def json_number_def Let_def split: prod.splits)

lemma compute_v2_cases:
  assumes "compute_v2 env source symbol marketSym lookback marketRets h prices s = (r, s')"
  shows "(r = Inl TypeError \<and> s' = s)
       \<or> (\<exists>k. r = Inr (computed_row h NaN k) \<and> s' = s)
       \<or> (\<exists>b k. r = Inr (computed_row h (Num b) k)
              \<and> s' = setCachedBeta env source symbol marketSym lookback (Num b) k s)"
proof (cases marketRets)
  case None
  then show ?thesis using assms by (simp add: compute_v2_def)
next
  case (Some mr)
  let ?al = "alignReturns (toReturns_v2 (slice_from (- (lookback + 10)) prices)) mr"
  have "calculateBeta (fst ?al) (snd ?al) = NaN \<or> (\<exists>b. calculateBeta (fst ?al) (snd ?al) = Num b)"
    by (rule calculateBeta_Num_or_NaN) (rule alignReturns_lengths)
  then show ?thesis
  proof
    assume "calculateBeta (fst ?al) (snd ?al) = NaN"
    then show ?thesis using assms Some
      by (auto simp add: compute_v2_def estimate_v2_def Let_def)
  next
    assume "\<exists>b. calculateBeta (fst ?al) (snd ?al) = Num b"
    then obtain b where "calculateBeta (fst ?al) (snd ?al) = Num b" by blast
    then show ?thesis using assms Some
      by (auto simp add: compute_v2_def estimate_v2_def Let_def)
  qed
qed

lemma process_holding_v2_cases:
  assumes "process_holding_v2 env source marketSym lookback marketRets i h s = (row, s')"
  shows "(\<exists>d. row = cached_row h d \<and> no_cache_write (snd s) (snd s'))
       \<or> (row = failed_row h \<and> no_cache_write (snd s) (snd s')
           \<and> fst (getCachedBeta env2 source (normalizeTicker (ticker h) source) marketSym lookback s') = None)
       \<or> (\<exists>k. row = computed_row h NaN k \<and> no_cache_write (snd s) (snd s')
           \<and> fst (getCachedBeta env2 source (normalizeTicker (ticker h) source) marketSym lookback s') = None)
       \<or> (\<exists>b k t. row = computed_row h (Num b) k \<and> numeric_cache_writes (snd s) (snd s')
           \<and> snd s' (cache_key source (normalizeTicker (ticker h) source) marketSym lookback)
                = Some (Entry \<lparr>c_beta = Some b, c_n = k, c_timestamp = t\<rparr>))"
proof -
  let ?symbol = "normalizeTicker (ticker h) source"
  obtain c s1 where g: "getCachedBeta env source ?symbol marketSym lookback s = (c, s1)"
    by (cases "getCachedBeta env source ?symbol marketSym lookback s") blast
  have nw: "no_cache_write (snd s) (snd s1)" using g by (rule getCachedBeta_store)
  show ?thesis
  proof (cases c)
    case (Some d)
    then have "row = cached_row h d \<and> s' = s1" using assms g by (simp add: process_holding_v2_def)
    then show ?thesis using nw by blast
  next
    case None
    have absent: "snd s1 (cache_key source ?symbol marketSym lookback) = None
        \<or> snd s1 (cache_key source ?symbol marketSym lookback) = Some Unparseable"
      using g None getCachedBeta_miss by blast
    let ?w2 = "if 1 < i then sleep env (fst s1) else fst s1"
    obtain resp w3 where f: "fetch_v2 env source ?symbol ?w2 = (resp, w3)"
      by (cases "fetch_v2 env source ?symbol ?w2") blast
    have miss: "fst (getCachedBeta env2 source ?symbol marketSym lookback (w3, snd s1)) = None"
      using absent by (simp add: getCachedBeta_of_absent)
    show ?thesis
    proof (cases resp)
      case (Inl e)
      then have "row = failed_row h \<and> s' = (w3, snd s1)"
        using assms g None f by (simp add: process_holding_v2_def Let_def)
      then show ?thesis using nw miss by simp
    next
      case (Inr prices)
      obtain r s2 where c2: "compute_v2 env source ?symbol marketSym lookback marketRets h prices (w3, snd s1) = (r, s2)"
        by (cases "compute_v2 env source ?symbol marketSym lookback marketRets h prices (w3, snd s1)") blast
      have rs: "(case r of Inl e \<Rightarrow> row = failed_row h | Inr x \<Rightarrow> row = x) \<and> s' = s2"
        using assms g None f Inr c2 by (auto simp add: process_holding_v2_def Let_def split: sum.splits)
      from compute_v2_cases[OF c2]
      consider (type_error) "r = Inl TypeError" "s2 = (w3, snd s1)"
        | (nan) k where "r = Inr (computed_row h NaN k)" "s2 = (w3, snd s1)"
        | (num) b k where "r = Inr (computed_row h (Num b) k)"
            "s2 = setCachedBeta env source ?symbol marketSym lookback (Num b) k (w3, snd s1)"
        by blast
      then show ?thesis
      proof cases
        case type_error
        then have "row = failed_row h \<and> s' = (w3, snd s1)" using rs by simp
        then show ?thesis using nw miss by simp
      next
        case nan
        then have "row = computed_row h NaN k \<and> s' = (w3, snd s1)" using rs by simp
        then show ?thesis using nw miss by auto
      next
        case num
        then have r: "row = computed_row h (Num b) k"
          and s: "s' = setCachedBeta env source ?symbol marketSym lookback (Num b) k (w3, snd s1)"
          using rs by simp_all
        have "numeric_cache_writes (snd s1) (snd s')"
          using setCachedBeta_numeric[of "(w3, snd s1)" env source ?symbol marketSym lookback b k] s by simp
        then have n: "numeric_cache_writes (snd s) (snd s')"
          using no_write_numeric[OF nw] numeric_cache_writes_trans by blast
        obtain t where "snd s' (cache_key source ?symbol marketSym lookback)
            = Some (Entry \<lparr>c_beta = Some b, c_n = k, c_timestamp = t\<rparr>)"
          using setCachedBeta_entry[of env source ?symbol marketSym lookback b k "(w3, snd s1)"] s by blast
        then show ?thesis using r n by blast
      qed
    qed
  qed
qed






lemma row_beta_facts:
  "r2_beta (cached_row h d) \<noteq> Some NaN" "r2_cached (cached_row h d)"
  "r2_beta (failed_row h) = Some NaN" "r2_n (failed_row h) = 0" "r2_error (failed_row h)"
  "r2_beta (computed_row h b k) = Some b" "r2_n (computed_row h b k) = k"
  "\<not> r2_error (computed_row h b k)" "\<not> r2_error (cached_row h d)"
  by (simp_all add: cached_row_def failed_row_def computed_row_def split: option.splits)


section \<open>Rows flagged as errors\<close>

lemma process_holding_v2_error_row:
  "process_holding_v2 env source marketSym lookback marketRets i h s = (row, s') \<Longrightarrow>
   r2_error row \<Longrightarrow> row = failed_row h"
  using process_holding_v2_cases[of env source marketSym lookback marketRets i h s row s' env]
  by (auto simp add: row_beta_facts)

lemma loop_v2_error_rows:
  "\<forall>r\<in>set (fst (loop_v2 env source marketSym lookback marketRets i hs s)).
     r2_error r \<longrightarrow> r2_beta r = Some NaN \<and> r2_n r = 0"
proof (induction hs arbitrary: i s)
  case Nil
  then show ?case by simp
next
  case (Cons h hs)
  obtain row s1 where p: "process_holding_v2 env source marketSym lookback marketRets i h s = (row, s1)"
    by (cases "process_holding_v2 env source marketSym lookback marketRets i h s") blast
  obtain rows s2 where l: "loop_v2 env source marketSym lookback marketRets (Suc i) hs s1 = (rows, s2)"
    by (cases "loop_v2 env source marketSym lookback marketRets (Suc i) hs s1") blast
  have "r2_error row \<longrightarrow> r2_beta row = Some NaN \<and> r2_n row = 0"
    using process_holding_v2_error_row[OF p] by (auto simp add: row_beta_facts)
  moreover have "\<forall>r\<in>set rows. r2_error r \<longrightarrow> r2_beta r = Some NaN \<and> r2_n r = 0"
    using Cons.IH[where i = "Suc i" and s = s1] l by simp
  ultimately show ?case using p l by simp
qed


section \<open>Claim C1: the beta of paired real vectors\<close>





section \<open>Claim C2: the portfolio beta\<close>

text \<open>
  Claim C2, as the code has it. For every batch result of version 0.1.0 the portfolio beta
  is the sum over the result rows of the normalised weight times the beta, a beta that is
  not finite counting as 0. For every batch result of version 0.2.0 the total of the
  table is the sum over the result rows of the normalised weight times the beta as the
  input field of the row holds it, rounded to two decimals, a row without a beta adding
  nothing; the total is shown when the rows with a beta have a positive weight together
  and is a dash otherwise. In both versions the weights are the weights normalised over
  all holdings: the sum is not divided by the weight of the rows with a beta.
\<close>

theorem portfolio_beta_is_weighted_sum:
  "(calc_v1 env marketInput lookbackInput holdingsText w = (Done (results1, pb), w') \<longrightarrow>
      pb = Num (sum_list (map weighted_beta_v1 results1)))
   \<and> (calc_v2 env source marketInput lookback holdingsText s = (Done (results2, rows, tot), s') \<longrightarrow>
      tot = (if 0 < sum_list (map counted_weight_v2 results2)
             then Some (Num (sum_list (map weighted_beta_v2 results2))) else None))
   \<and> ((\<forall>r\<in>set rs1. isFinite (res_weight r)) \<longrightarrow>
      portfolioBeta_v1 rs1 = Num (sum_list (map weighted_beta_v1 rs1)))
   \<and> ((\<forall>r\<in>set rs2. isFinite (r2_weight r)) \<and> renderTable rs2 = Inr (rows2, tot2) \<longrightarrow>
      tot2 = (if 0 < sum_list (map counted_weight_v2 rs2)
              then Some (Num (sum_list (map weighted_beta_v2 rs2))) else None))"
proof -
  have c: "(\<forall>r\<in>set rs1. isFinite (res_weight r)) \<longrightarrow>
      portfolioBeta_v1 rs1 = Num (sum_list (map weighted_beta_v1 rs1))" for rs1
    using portfolioBeta_v1_fold[of rs1 0] by (simp add: portfolioBeta_v1_def)
  have d: "(\<forall>r\<in>set rs2. isFinite (r2_weight r)) \<and> renderTable rs2 = Inr (rows2, tot2) \<longrightarrow>
      tot2 = (if 0 < sum_list (map counted_weight_v2 rs2)
              then Some (Num (sum_list (map weighted_beta_v2 rs2))) else None)" for rs2 rows2 tot2
    using renderTable_total[of rs2 rows2 tot2] by blast
  have a: "calc_v1 env marketInput lookbackInput holdingsText w = (Done (results1, pb), w') \<longrightarrow>
      pb = Num (sum_list (map weighted_beta_v1 results1))"
  proof
    assume run: "calc_v1 env marketInput lookbackInput holdingsText w = (Done (results1, pb), w')"
    let ?hs0 = "parseHoldings_v1 (Number env) holdingsText"
    from run obtain hs lb mr w1 where
      n: "normalizeWeights_v1 ?hs0 = Inr hs" and
      l: "loop_v1 env lb mr hs w1 = (Inr results1, w')" and
      pb: "pb = portfolioBeta_v1 results1"
      by (auto simp add: calc_v1_def Let_def split: if_splits sum.splits prod.splits)
    have "\<forall>h\<in>set hs. \<exists>a. weight h = Num a \<and> 0 < a"
      using normalizeWeights_finite[of ?hs0 hs] parseHoldings_v1_positive n by blast
    then have "\<forall>r\<in>set results1. isFinite (res_weight r)"
      using loop_v1_weights[OF l] by fastforce
    then show "pb = Num (sum_list (map weighted_beta_v1 results1))" using c pb by blast
  qed
  have b: "calc_v2 env source marketInput lookback holdingsText s = (Done (results2, rows, tot), s') \<longrightarrow>
      tot = (if 0 < sum_list (map counted_weight_v2 results2)
             then Some (Num (sum_list (map weighted_beta_v2 results2))) else None)"
  proof
    assume run: "calc_v2 env source marketInput lookback holdingsText s = (Done (results2, rows, tot), s')"
    let ?hs0 = "parseHoldings_v2 (Number env) holdingsText"
    from run obtain hs mr s2 where
      n: "normalizeWeights_v2 ?hs0 = Inr hs" and
      l: "loop_v2 env source (normalizeTicker marketInput source) lookback mr 1 hs s2 = (results2, s')" and
      r: "renderTable results2 = Inr (rows, tot)"
      by (auto simp add: calc_v2_def Let_def split: if_splits sum.splits prod.splits)
    have hs: "\<forall>h\<in>set hs. \<exists>a. weight h = Num a \<and> 0 < a"
      using normalizeWeights_finite[of ?hs0 hs] parseHoldings_v2_positive n by blast
    have "map r2_weight results2 = map weight hs"
      using loop_v2_fields[of env source "normalizeTicker marketInput source" lookback mr 1 hs s2] l by simp
    then have "set (map r2_weight results2) = set (map weight hs)" by simp
    then have "\<forall>x\<in>set (map r2_weight results2). isFinite x" using hs by auto
    then have "\<forall>r\<in>set results2. isFinite (r2_weight r)" by simp
    then show "tot = (if 0 < sum_list (map counted_weight_v2 results2)
             then Some (Num (sum_list (map weighted_beta_v2 results2))) else None)"
      using d r by blast
  qed
  show ?thesis using a b c d by (intro conjI)
qed

text \<open>The theorem at the two sample runs: two holdings of beta 1 in version 0.1.0, and
  three holdings of which the second fails in version 0.2.0.\<close>

theorem portfolio_beta_is_weighted_sum_witness:
  "calc_v1 sample_env ''spy.us'' ''252'' ''SPY, 1\<newline>SPY, 3'' 0 = (Done (sample_results_v1, Num 1), 3750)
   \<and> Num 1 = Num (sum_list (map weighted_beta_v1 sample_results_v1))
   \<and> calc_v2 sample_env ''yahoo'' ''SPY'' 252 ''AAA, 1\<newline>FAIL, 1\<newline>BBB, 2'' (0, Map.empty) =
     (Done (sample_results,
            [\<lparr>tr_ticker = ''BBB'', tr_weight = Num (1 / 2), tr_input = Num (48 / 25)\<rparr>,
             \<lparr>tr_ticker = ''AAA'', tr_weight = Num (1 / 4), tr_input = Num (48 / 25)\<rparr>,
             \<lparr>tr_ticker = ''FAIL'', tr_weight = Num (1 / 4), tr_input = NaN\<rparr>],
            Some (Num (36 / 25))),
      (3000, sample_store))
   \<and> Some (Num (36 / 25)) =
       (if 0 < sum_list (map counted_weight_v2 sample_results)
        then Some (Num (sum_list (map weighted_beta_v2 sample_results))) else None)
   \<and> sum_list (map counted_weight_v2 sample_results) = 3 / 4"
proof -
  note t = portfolio_beta_is_weighted_sum[where env = sample_env and marketInput = "''spy.us''"
      and lookbackInput = "''252''" and holdingsText = "''SPY, 1\<newline>SPY, 3''" and w = 0
      and ?results1.0 = sample_results_v1 and pb = "Num 1" and w' = 3750]
  note u = portfolio_beta_is_weighted_sum[where env = sample_env and marketInput = "''SPY''"
      and source = "''yahoo''" and lookback = 252
      and holdingsText = "''AAA, 1\<newline>FAIL, 1\<newline>BBB, 2''" and s = "(0, Map.empty)"
      and ?results2.0 = sample_results and tot = "Some (Num (36 / 25))" and s' = "(3000, sample_store)"]
  have a: "Num 1 = Num (sum_list (map weighted_beta_v1 sample_results_v1))"
    using t sample_run_v1 by blast
  have b: "Some (Num (36 / 25)) =
       (if 0 < sum_list (map counted_weight_v2 sample_results)
        then Some (Num (sum_list (map weighted_beta_v2 sample_results))) else None)"
    using u sample_run_v2 by blast
  have c: "sum_list (map counted_weight_v2 sample_results) = 3 / 4"
    by (simp add: sample_results_def counted_weight_v2_def)
  show ?thesis using sample_run_v1 a sample_run_v2 b c by (intro conjI)
qed

text \<open>
  The claim as it is worded has the portfolio beta equal to the sum of weight times
  beta. In version 0.2.0 one holding of weight 1 and beta 1.234 gives the total 1.23,
  and one holding without a beta gives no total rather than 0.
\<close>

theorem recalc_rounds_beta_counterexample:
  "renderTable [\<lparr>r2_ticker = ''AAA'', r2_weight = Num 1, r2_beta = Some (Num (1234 / 1000)), r2_n = 21,
                  r2_cached = False, r2_error = False\<rparr>]
     = Inr ([\<lparr>tr_ticker = ''AAA'', tr_weight = Num 1, tr_input = Num (123 / 100)\<rparr>],
            Some (Num (123 / 100)))
   \<and> js_mul (Num 1) (Num (1234 / 1000)) = Num (1234 / 1000)
   \<and> renderTable [\<lparr>r2_ticker = ''AAA'', r2_weight = Num 1, r2_beta = Some NaN, r2_n = 0,
                  r2_cached = False, r2_error = True\<rparr>]
     = Inr ([\<lparr>tr_ticker = ''AAA'', tr_weight = Num 1, tr_input = NaN\<rparr>], None)"
  by (simp add: renderTable_def sort_desc_def table_row_of_def toFixed2_def recalc_def js_gt_def)

section \<open>Claim C3: a failure of one holding\<close>

text \<open>
  Claim C3, as the code has it. In version 0.2.0, for every batch and every holding in it:
  the loop yields one row per holding, in the order of the holdings, with the ticker and
  the weight of the holding; when the holding is not served from the cache and its fetch
  raises an exception, or the computation raises one (the market series being absent),
  the row of the holding is the failed entry, with the beta NaN, the sample size 0 and
  the error flag set, and the loop goes on with the next holding; every row whose error
  flag is set has the beta NaN and the sample size 0. In version 0.1.0 the loop has no
  handler of its own: an exception of the fetch of a holding ends the loop with that
  exception, and no row is recorded.
\<close>

theorem holding_failures_are_recorded:
  "map r2_ticker (fst (loop_v2 env source marketSym lookback marketRets i hs s)) = map ticker hs
   \<and> map r2_weight (fst (loop_v2 env source marketSym lookback marketRets i hs s)) = map weight hs
   \<and> (getCachedBeta env source (normalizeTicker (ticker h) source) marketSym lookback s = (None, s1)
        \<and> fetch_v2 env source (normalizeTicker (ticker h) source)
              (if 1 < i then sleep env (fst s1) else fst s1) = (Inl e, w3)
      \<longrightarrow> process_holding_v2 env source marketSym lookback marketRets i h s
            = (failed_row h, (w3, snd s1)))
   \<and> (getCachedBeta env source (normalizeTicker (ticker h) source) marketSym lookback s = (None, s1)
        \<and> fetch_v2 env source (normalizeTicker (ticker h) source)
              (if 1 < i then sleep env (fst s1) else fst s1) = (Inr prices, w3)
        \<and> marketRets = None
      \<longrightarrow> process_holding_v2 env source marketSym lookback marketRets i h s
            = (failed_row h, (w3, snd s1)))
   \<and> failed_row h = \<lparr>r2_ticker = ticker h, r2_weight = weight h, r2_beta = Some NaN, r2_n = 0,
                      r2_cached = False, r2_error = True\<rparr>
   \<and> loop_v2 env source marketSym lookback marketRets i (h # hs) s
       = (fst (process_holding_v2 env source marketSym lookback marketRets i h s)
            # fst (loop_v2 env source marketSym lookback marketRets (Suc i) hs
                     (snd (process_holding_v2 env source marketSym lookback marketRets i h s))),
          snd (loop_v2 env source marketSym lookback marketRets (Suc i) hs
                 (snd (process_holding_v2 env source marketSym lookback marketRets i h s))))
   \<and> (\<forall>r\<in>set (fst (loop_v2 env source marketSym lookback marketRets i hs s)).
         r2_error r \<longrightarrow> r2_beta r = Some NaN \<and> r2_n r = 0)
   \<and> (normalizeToStooqSymbol (ticker h) \<noteq> []
        \<and> fetchPrices_io_v1 env (normalizeToStooqSymbol (ticker h)) w = (Inl e, w1)
      \<longrightarrow> loop_v1 env lookback1 marketRets1 (h # hs) w = (Inl e, w1))"
proof -
  have a: "map r2_ticker (fst (loop_v2 env source marketSym lookback marketRets i hs s)) = map ticker hs"
    and b: "map r2_weight (fst (loop_v2 env source marketSym lookback marketRets i hs s)) = map weight hs"
    using loop_v2_fields by blast+
  have c: "getCachedBeta env source (normalizeTicker (ticker h) source) marketSym lookback s = (None, s1)
        \<and> fetch_v2 env source (normalizeTicker (ticker h) source)
              (if 1 < i then sleep env (fst s1) else fst s1) = (Inl e, w3)
      \<longrightarrow> process_holding_v2 env source marketSym lookback marketRets i h s
            = (failed_row h, (w3, snd s1))"
    by (simp add: process_holding_v2_def Let_def)
  have d: "getCachedBeta env source (normalizeTicker (ticker h) source) marketSym lookback s = (None, s1)
        \<and> fetch_v2 env source (normalizeTicker (ticker h) source)
              (if 1 < i then sleep env (fst s1) else fst s1) = (Inr prices, w3)
        \<and> marketRets = None
      \<longrightarrow> process_holding_v2 env source marketSym lookback marketRets i h s
            = (failed_row h, (w3, snd s1))"
    by (simp add: process_holding_v2_def compute_v2_def Let_def)
  have f: "failed_row h = \<lparr>r2_ticker = ticker h, r2_weight = weight h, r2_beta = Some NaN, r2_n = 0,
                      r2_cached = False, r2_error = True\<rparr>"
    by (simp add: failed_row_def)
  have g: "loop_v2 env source marketSym lookback marketRets i (h # hs) s
       = (fst (process_holding_v2 env source marketSym lookback marketRets i h s)
            # fst (loop_v2 env source marketSym lookback marketRets (Suc i) hs
                     (snd (process_holding_v2 env source marketSym lookback marketRets i h s))),
          snd (loop_v2 env source marketSym lookback marketRets (Suc i) hs
                 (snd (process_holding_v2 env source marketSym lookback marketRets i h s))))"
    by (simp add: split_beta)
  have k: "\<forall>r\<in>set (fst (loop_v2 env source marketSym lookback marketRets i hs s)).
         r2_error r \<longrightarrow> r2_beta r = Some NaN \<and> r2_n r = 0"
    by (rule loop_v2_error_rows)
  have m: "normalizeToStooqSymbol (ticker h) \<noteq> []
        \<and> fetchPrices_io_v1 env (normalizeToStooqSymbol (ticker h)) w = (Inl e, w1)
      \<longrightarrow> loop_v1 env lookback1 marketRets1 (h # hs) w = (Inl e, w1)"
    by (simp add: Let_def)
  show ?thesis using a b c d f g k m by (intro conjI)
qed

text \<open>The theorem at the sample holdings, of which the second fails and the third is
  computed after it.\<close>

theorem holding_failures_are_recorded_witness:
  "map r2_ticker (fst (loop_v2 sample_env ''yahoo'' ''SPY'' 252 (Some (sample_returns 100 110)) (Suc 0)
        sample_holdings (250, Map.empty))) = [''AAA'', ''FAIL'', ''BBB'']
   \<and> fst (loop_v2 sample_env ''yahoo'' ''SPY'' 252 (Some (sample_returns 100 110)) (Suc 0)
        sample_holdings (250, Map.empty)) = sample_results
   \<and> process_holding_v2 sample_env ''yahoo'' ''SPY'' 252 (Some (sample_returns 100 110)) 2
        \<lparr>ticker = ''FAIL'', weight = Num (1 / 4)\<rparr> (500, Map.empty)
       = (\<lparr>r2_ticker = ''FAIL'', r2_weight = Num (1 / 4), r2_beta = Some NaN, r2_n = 0,
            r2_cached = False, r2_error = True\<rparr>, (1750, Map.empty))"
proof -
  let ?h = "\<lparr>ticker = ''FAIL'', weight = Num (1 / 4)\<rparr>"
  note t = holding_failures_are_recorded[where env = sample_env and source = "''yahoo''"
      and marketSym = "''SPY''" and lookback = 252 and marketRets = "Some (sample_returns 100 110)"
      and i = "Suc 0" and hs = sample_holdings and s = "(250, Map.empty)"]
  have a: "map r2_ticker (fst (loop_v2 sample_env ''yahoo'' ''SPY'' 252 (Some (sample_returns 100 110)) (Suc 0)
        sample_holdings (250, Map.empty))) = [''AAA'', ''FAIL'', ''BBB'']"
    using conjunct1[OF t] by (simp add: sample_holdings_def)
  have b: "fst (loop_v2 sample_env ''yahoo'' ''SPY'' 252 (Some (sample_returns 100 110)) (Suc 0)
        sample_holdings (250, Map.empty)) = sample_results"
    by (simp add: sample_loop)
  note u = holding_failures_are_recorded[where env = sample_env and source = "''yahoo''"
      and marketSym = "''SPY''" and lookback = 252 and marketRets = "Some (sample_returns 100 110)"
      and i = 2 and h = ?h and s = "(500, Map.empty)" and ?s1.0 = "(500, Map.empty)"
      and e = "Error ''HTTP 404''" and ?w3.0 = 1750]
  have g: "getCachedBeta sample_env ''yahoo'' (normalizeTicker (ticker ?h) ''yahoo'') ''SPY'' 252 (500, Map.empty)
      = (None, (500, Map.empty))"
    by (simp add: getCachedBeta_def)
  have f: "fetch_v2 sample_env ''yahoo'' (normalizeTicker (ticker ?h) ''yahoo'')
      (if 1 < (2::nat) then sleep sample_env (fst (500 :: int, Map.empty :: storage)) else fst (500 :: int, Map.empty :: storage))
      = (Inl (Error ''HTTP 404''), 1750)"
    by (simp add: fetch_v2_def sample_env_fields sample_eval_tickers)
  have c: "process_holding_v2 sample_env ''yahoo'' ''SPY'' 252 (Some (sample_returns 100 110)) 2 ?h (500, Map.empty)
       = (\<lparr>r2_ticker = ''FAIL'', r2_weight = Num (1 / 4), r2_beta = Some NaN, r2_n = 0,
            r2_cached = False, r2_error = True\<rparr>, (1750, Map.empty))"
    using u g f by (simp add: failed_row_def)
  show ?thesis using a b c by (intro conjI)
qed

text \<open>
  The claim as it is worded has a failure never abort the batch. In version 0.1.0 the
  market series arrives, the fetch of the first holding fails, and the calculation ends
  with that error; the second holding is not processed.
\<close>

theorem loop_v1_aborts_counterexample:
  "calc_v1 sample_env ''spy.us'' ''252'' ''AAA, 1\<newline>BBB, 1'' 0 = (Failed (Error ''HTTP 404''), 1500)
   \<and> fetchPrices_io_v1 sample_env ''spy.us'' 0 = (Inr sample_rows, 1250)
   \<and> fetchPrices_io_v1 sample_env (normalizeToStooqSymbol ''AAA'') 1250 = (Inl (Error ''HTTP 404''), 1500)"
  using sample_abort_v1 sample_market_v1 by (simp add: sample_eval_v1)

section \<open>Claim C4: prices to returns\<close>

text \<open>
  Claim C4, as the code has it. For every price history, \<open>toReturns\<close> of version
  0.2.0 emits, for each consecutive pair \<open>(p0, p1)\<close> whose closes are both strictly
  positive, the row \<open>{date: p1.date, value: p1.close / p0.close - 1}\<close>, and passes
  over every other pair. \<open>toReturns\<close> of version 0.1.0 emits that row for each
  consecutive pair whose closes are both finite and whose earlier close is strictly
  positive, whatever the sign of the later close, and passes over every other pair.
  Neither raises an error. On positive real closes \<open>a\<close>, \<open>b\<close> the value is the real
  number \<open>b / a - 1\<close>.
\<close>

theorem toReturns_emits_and_skips:
  "toReturns_v2 rows =
     map (\<lambda>(p0, p1). \<lparr>rdate = date p1, rvalue = js_sub (js_div (close p1) (close p0)) (Num 1)\<rparr>)
       (filter (\<lambda>(p0, p1). js_gt (close p0) (Num 0) \<and> js_gt (close p1) (Num 0))
          (zip rows (tl rows)))
   \<and> toReturns_v1 rows =
     map (\<lambda>(p0, p1). \<lparr>rdate = date p1, rvalue = js_sub (js_div (close p1) (close p0)) (Num 1)\<rparr>)
       (filter (\<lambda>(p0, p1). isFinite (close p0) \<and> isFinite (close p1) \<and> js_gt (close p0) (Num 0))
          (zip rows (tl rows)))
   \<and> (0 < a \<and> 0 < b \<longrightarrow> js_sub (js_div (Num b) (Num a)) (Num 1) = Num (b / a - 1))"
proof -
  have v2: "toReturns_v2 rs =
     map (\<lambda>(p0, p1). \<lparr>rdate = date p1, rvalue = js_sub (js_div (close p1) (close p0)) (Num 1)\<rparr>)
       (filter (\<lambda>(p0, p1). js_gt (close p0) (Num 0) \<and> js_gt (close p1) (Num 0))
          (zip rs (tl rs)))" for rs
    by (induction rs rule: toReturns_v2.induct) (simp_all add: Let_def)
  have pos: "isFinite x \<Longrightarrow> js_le x (Num 0) = (\<not> js_gt x (Num 0))" for x
    by (cases x) (auto simp add: js_le_def js_gt_def)
  have v1: "toReturns_v1 rs =
     map (\<lambda>(p0, p1). \<lparr>rdate = date p1, rvalue = js_sub (js_div (close p1) (close p0)) (Num 1)\<rparr>)
       (filter (\<lambda>(p0, p1). isFinite (close p0) \<and> isFinite (close p1) \<and> js_gt (close p0) (Num 0))
          (zip rs (tl rs)))" for rs
    by (induction rs rule: toReturns_v1.induct) (auto simp add: Let_def pos)
  have val: "0 < a \<and> 0 < b \<longrightarrow> js_sub (js_div (Num b) (Num a)) (Num 1) = Num (b / a - 1)"
    by (simp add: js_sub_def)
  show ?thesis using v2 v1 val by blast
qed

text \<open>The theorem at a history of four rows whose second close is zero.\<close>

theorem toReturns_emits_and_skips_witness:
  "toReturns_v2 [\<lparr>date = ''2024-01-02'', close = Num 100\<rparr>, \<lparr>date = ''2024-01-03'', close = Num 0\<rparr>,
                 \<lparr>date = ''2024-01-04'', close = Num 50\<rparr>, \<lparr>date = ''2024-01-05'', close = Num 55\<rparr>]
     = [\<lparr>rdate = ''2024-01-05'', rvalue = Num (1 / 10)\<rparr>]
   \<and> toReturns_v1 [\<lparr>date = ''2024-01-02'', close = Num 100\<rparr>, \<lparr>date = ''2024-01-03'', close = Num 0\<rparr>,
                 \<lparr>date = ''2024-01-04'', close = Num 50\<rparr>, \<lparr>date = ''2024-01-05'', close = Num 55\<rparr>]
     = [\<lparr>rdate = ''2024-01-03'', rvalue = Num (- 1)\<rparr>, \<lparr>rdate = ''2024-01-05'', rvalue = Num (1 / 10)\<rparr>]
   \<and> js_sub (js_div (Num 55) (Num 50)) (Num 1) = Num (55 / 50 - 1)"
proof -
  let ?rows = "[\<lparr>date = ''2024-01-02'', close = Num 100\<rparr>, \<lparr>date = ''2024-01-03'', close = Num 0\<rparr>,
                 \<lparr>date = ''2024-01-04'', close = Num 50\<rparr>, \<lparr>date = ''2024-01-05'', close = Num 55\<rparr>]"
  note t = toReturns_emits_and_skips[of ?rows 50 55]
  have v2: "toReturns_v2 ?rows = [\<lparr>rdate = ''2024-01-05'', rvalue = Num (1 / 10)\<rparr>]"
    by (subst conjunct1[OF t]) (simp add: js_gt_def js_sub_def)
  have v1: "toReturns_v1 ?rows =
      [\<lparr>rdate = ''2024-01-03'', rvalue = Num (- 1)\<rparr>, \<lparr>rdate = ''2024-01-05'', rvalue = Num (1 / 10)\<rparr>]"
    by (subst conjunct1[OF conjunct2[OF t]]) (simp add: js_gt_def js_sub_def)
  have val: "js_sub (js_div (Num 55) (Num 50)) (Num 1) = Num (55 / 50 - 1)"
    using conjunct2[OF conjunct2[OF t]] by simp
  show ?thesis using v2 v1 val by (intro conjI)
qed

text \<open>
  The claim as it is worded has every pair with a close that is not strictly positive
  skipped. Version 0.1.0 tests the earlier close only: from 100 to 0 it emits the
  return \<open>-1\<close>.
\<close>

theorem toReturns_v1_keeps_zero_close_counterexample:
  "toReturns_v1 [\<lparr>date = ''2024-01-02'', close = Num 100\<rparr>, \<lparr>date = ''2024-01-03'', close = Num 0\<rparr>]
     = [\<lparr>rdate = ''2024-01-03'', rvalue = Num (- 1)\<rparr>]
   \<and> js_gt (Num 0) (Num 0) = False"
  by (simp add: js_le_def js_gt_def js_sub_def)

section \<open>Claim C5: the cache round trip, expiry and stored values that do not parse\<close>

lemma sample_env_clock: "dateNow sample_env w = (w, w)"
  by (simp add: sample_env_def)

text \<open>
  Claim C5. For every cache key: a \<open>setCachedBeta\<close> followed by a \<open>getCachedBeta\<close> for
  the same key, with the clock at the read no more than the 24 hours of
  \<open>CACHE_DURATION_MS\<close> after the clock at the write (at once, in particular), returns
  the entry that was stored, with its beta (the number itself when it is finite) and
  its sample size. A read of an entry older than \<open>CACHE_DURATION_MS\<close> returns
  \<open>null\<close> and removes the entry. A read of a stored value that does not parse returns
  \<open>null\<close>, no exception reaching the caller; so does a read of a key that is absent.
\<close>

theorem cache_round_trip_and_expiry:
  "(dateNow env w = (t, w1) \<and> dateNow env w1 = (t', w2) \<and> t' - t \<le> CACHE_DURATION_MS \<longrightarrow>
      getCachedBeta env source symbol market lookback
          (setCachedBeta env source symbol market lookback b k (w, st))
        = (Some \<lparr>c_beta = json_number b, c_n = k, c_timestamp = t\<rparr>,
           (w2, st(cache_key source symbol market lookback \<mapsto>
                     Entry \<lparr>c_beta = json_number b, c_n = k, c_timestamp = t\<rparr>))))
   \<and> json_number (Num x) = Some x
   \<and> (st (cache_key source symbol market lookback) = Some (Entry d) \<and> dateNow env w = (t, w1)
        \<and> CACHE_DURATION_MS < t - c_timestamp d \<longrightarrow>
      getCachedBeta env source symbol market lookback (w, st)
        = (None, (w1, st(cache_key source symbol market lookback := None))))
   \<and> (st (cache_key source symbol market lookback) = Some Unparseable \<longrightarrow>
      getCachedBeta env source symbol market lookback (w, st) = (None, (w, st)))
   \<and> (st (cache_key source symbol market lookback) = None \<longrightarrow>
      getCachedBeta env source symbol market lookback (w, st) = (None, (w, st)))
   \<and> CACHE_DURATION_MS = 24 * 60 * 60 * 1000"
proof -
  have a: "dateNow env w = (t, w1) \<and> dateNow env w1 = (t', w2) \<and> t' - t \<le> CACHE_DURATION_MS \<longrightarrow>
      getCachedBeta env source symbol market lookback
          (setCachedBeta env source symbol market lookback b k (w, st))
        = (Some \<lparr>c_beta = json_number b, c_n = k, c_timestamp = t\<rparr>,
           (w2, st(cache_key source symbol market lookback \<mapsto>
                     Entry \<lparr>c_beta = json_number b, c_n = k, c_timestamp = t\<rparr>)))"
    by (simp add: getCachedBeta_def setCachedBeta_def Let_def)
  have b: "json_number (Num x) = Some x" by (simp add: json_number_def)
  have c: "st (cache_key source symbol market lookback) = Some (Entry d) \<and> dateNow env w = (t, w1)
        \<and> CACHE_DURATION_MS < t - c_timestamp d \<longrightarrow>
      getCachedBeta env source symbol market lookback (w, st)
        = (None, (w1, st(cache_key source symbol market lookback := None)))"
    by (simp add: getCachedBeta_def Let_def)
  have d: "st (cache_key source symbol market lookback) = Some Unparseable \<longrightarrow>
      getCachedBeta env source symbol market lookback (w, st) = (None, (w, st))"
    by (simp add: getCachedBeta_def Let_def)
  have e: "st (cache_key source symbol market lookback) = None \<longrightarrow>
      getCachedBeta env source symbol market lookback (w, st) = (None, (w, st))"
    by (simp add: getCachedBeta_def Let_def)
  have f: "CACHE_DURATION_MS = 24 * 60 * 60 * 1000" by (simp add: CACHE_DURATION_MS_def)
  show ?thesis using a b c d e f by (intro conjI)
qed

text \<open>The theorem at a write and a read at time 0, at a read one millisecond after the
  24 hours, and at a stored value that does not parse.\<close>

theorem cache_round_trip_and_expiry_witness:
  "getCachedBeta sample_env ''yahoo'' ''AAA'' ''SPY'' 252
       (setCachedBeta sample_env ''yahoo'' ''AAA'' ''SPY'' 252 (Num (121 / 63)) 21 (0, Map.empty))
     = (Some \<lparr>c_beta = Some (121 / 63), c_n = 21, c_timestamp = 0\<rparr>,
        (0, [cache_key ''yahoo'' ''AAA'' ''SPY'' 252 \<mapsto>
               Entry \<lparr>c_beta = Some (121 / 63), c_n = 21, c_timestamp = 0\<rparr>]))
   \<and> getCachedBeta sample_env ''yahoo'' ''AAA'' ''SPY'' 252
       (86400001, [cache_key ''yahoo'' ''AAA'' ''SPY'' 252 \<mapsto>
                     Entry \<lparr>c_beta = Some (121 / 63), c_n = 21, c_timestamp = 0\<rparr>])
     = (None, (86400001, Map.empty))
   \<and> getCachedBeta sample_env ''yahoo'' ''AAA'' ''SPY'' 252
       (0, [cache_key ''yahoo'' ''AAA'' ''SPY'' 252 \<mapsto> Unparseable])
     = (None, (0, [cache_key ''yahoo'' ''AAA'' ''SPY'' 252 \<mapsto> Unparseable]))"
proof -
  let ?key = "cache_key ''yahoo'' ''AAA'' ''SPY'' 252"
  let ?d = "\<lparr>c_beta = Some (121 / 63), c_n = 21, c_timestamp = 0\<rparr>"
  note t1 = cache_round_trip_and_expiry[where env = sample_env and w = 0 and t = 0 and ?w1.0 = 0
      and t' = 0 and ?w2.0 = 0 and source = "''yahoo''" and symbol = "''AAA''" and market = "''SPY''"
      and lookback = 252 and b = "Num (121 / 63)" and k = 21 and st = Map.empty and x = "121 / 63"]
  have a: "getCachedBeta sample_env ''yahoo'' ''AAA'' ''SPY'' 252
       (setCachedBeta sample_env ''yahoo'' ''AAA'' ''SPY'' 252 (Num (121 / 63)) 21 (0, Map.empty))
     = (Some ?d, (0, [?key \<mapsto> Entry ?d]))"
    using t1 by (simp add: sample_env_clock CACHE_DURATION_MS_def json_number_def)
  note t2 = cache_round_trip_and_expiry[where env = sample_env and w = 86400001 and t = 86400001
      and ?w1.0 = 86400001 and source = "''yahoo''" and symbol = "''AAA''" and market = "''SPY''"
      and lookback = 252 and st = "[?key \<mapsto> Entry ?d]" and d = ?d]
  have b: "getCachedBeta sample_env ''yahoo'' ''AAA'' ''SPY'' 252 (86400001, [?key \<mapsto> Entry ?d])
     = (None, (86400001, Map.empty))"
    using t2 by (simp add: sample_env_clock CACHE_DURATION_MS_def)
  note t3 = cache_round_trip_and_expiry[where env = sample_env and w = 0
      and source = "''yahoo''" and symbol = "''AAA''" and market = "''SPY''"
      and lookback = 252 and st = "[?key \<mapsto> Unparseable]"]
  have c: "getCachedBeta sample_env ''yahoo'' ''AAA'' ''SPY'' 252 (0, [?key \<mapsto> Unparseable])
     = (None, (0, [?key \<mapsto> Unparseable]))"
    using t3 by simp
  show ?thesis using a b c by (intro conjI)
qed

section \<open>Claim C6: the aligner\<close>



section \<open>Claim C7: weight normalisation\<close>



section \<open>Claim C8: when the price fetch fails\<close>

lemma csv_row_v1_usable:
  "r \<in> set (csv_row_v1 num dateIdx closeIdx line) \<Longrightarrow> date r \<noteq> [] \<and> isFinite (close r)"
  by (auto simp add: csv_row_v1_def Let_def split: option.splits if_splits)

lemma csv_row_v2_usable:
  "r \<in> set (csv_row_v2 num dateIdx closeIdx line) \<Longrightarrow> date r \<noteq> [] \<and> \<not> isNaN (close r)"
  by (auto simp add: csv_row_v2_def Let_def split: option.splits if_splits)

lemma parseStooqCsv_usable:
  "r \<in> set (parseStooqCsv num csv) \<Longrightarrow> date r \<noteq> [] \<and> isFinite (close r)"
  by (auto simp add: parseStooqCsv_def Let_def split: if_splits dest: csv_row_v1_usable)

lemma parseStooqCsv_short:
  "length (split_lines (trim csv)) < 3 \<Longrightarrow> parseStooqCsv num csv = []"
  by (simp add: parseStooqCsv_def Let_def)

lemma parseStooqCsv_header:
  "findIndex (\<lambda>h. toLowerCase h = ''date'') (split_on (CHR '','') (hd (split_lines (trim csv)))) = None
   \<or> findIndex (\<lambda>h. toLowerCase h = ''close'') (split_on (CHR '','') (hd (split_lines (trim csv)))) = None
   \<Longrightarrow> parseStooqCsv num csv = []"
  by (auto simp add: parseStooqCsv_def Let_def)

lemma sample_fetches:
  "fetchPrices_v1 decimal_Number ''spy.us'' (Inr sample_csv) =
     Inr [\<lparr>date = ''2024-01-02'', close = Num 100\<rparr>, \<lparr>date = ''2024-01-03'', close = Num 110\<rparr>,
      \<lparr>date = ''2024-01-04'', close = Num 99\<rparr>]"
  by code_simp


text \<open>
  Claim C8, as the code has it. For every provider response, \<open>fetchPrices\<close> of version
  0.1.0 fails with an error when the request fails, when the trimmed response has fewer
  than three lines (the empty response among them), when the header lacks the date or
  the close column, and when no data line is usable; a history it returns is not empty
  and all its rows have a date and a finite close. \<open>fetchPricesStooq\<close> of version 0.2.0
  fails when the request fails and, with \<open>No data\<close>, when the trimmed response has
  fewer than three lines; the rows of a history it returns have a date and a close that
  is not NaN.
\<close>

theorem price_fetch_failures:
  "fetchPrices_v1 num symbol (Inl e) = Inl e
   \<and> (length (split_lines (trim csv)) < 3
        \<or> findIndex (\<lambda>h. toLowerCase h = ''date'') (split_on (CHR '','') (hd (split_lines (trim csv)))) = None
        \<or> findIndex (\<lambda>h. toLowerCase h = ''close'') (split_on (CHR '','') (hd (split_lines (trim csv)))) = None
        \<or> parseStooqCsv num csv = []
      \<longrightarrow> (\<exists>e'. fetchPrices_v1 num symbol (Inr csv) = Inl e'))
   \<and> (fetchPrices_v1 num symbol response = Inr rows \<longrightarrow>
        rows \<noteq> [] \<and> (\<forall>r\<in>set rows. date r \<noteq> [] \<and> isFinite (close r)))
   \<and> fetchPricesStooq num (Inl e) = Inl e
   \<and> (length (split_lines (trim csv)) < 3 \<longrightarrow> fetchPricesStooq num (Inr csv) = Inl (Error ''No data''))
   \<and> (fetchPricesStooq num response = Inr rows \<longrightarrow>
        (\<forall>r\<in>set rows. date r \<noteq> [] \<and> \<not> isNaN (close r)))"
proof -
  have a: "fetchPrices_v1 num symbol (Inl e) = Inl e" by (simp add: fetchPrices_v1_def)
  have b: "length (split_lines (trim csv)) < 3
        \<or> findIndex (\<lambda>h. toLowerCase h = ''date'') (split_on (CHR '','') (hd (split_lines (trim csv)))) = None
        \<or> findIndex (\<lambda>h. toLowerCase h = ''close'') (split_on (CHR '','') (hd (split_lines (trim csv)))) = None
        \<or> parseStooqCsv num csv = []
      \<longrightarrow> (\<exists>e'. fetchPrices_v1 num symbol (Inr csv) = Inl e')"
  proof
    assume "length (split_lines (trim csv)) < 3
        \<or> findIndex (\<lambda>h. toLowerCase h = ''date'') (split_on (CHR '','') (hd (split_lines (trim csv)))) = None
        \<or> findIndex (\<lambda>h. toLowerCase h = ''close'') (split_on (CHR '','') (hd (split_lines (trim csv)))) = None
        \<or> parseStooqCsv num csv = []"
    then have "parseStooqCsv num csv = []"
      using parseStooqCsv_short[of csv num] parseStooqCsv_header[of csv num] by blast
    then show "\<exists>e'. fetchPrices_v1 num symbol (Inr csv) = Inl e'"
      by (simp add: fetchPrices_v1_def)
  qed
  have c: "fetchPrices_v1 num symbol response = Inr rows \<longrightarrow>
        rows \<noteq> [] \<and> (\<forall>r\<in>set rows. date r \<noteq> [] \<and> isFinite (close r))"
    using parseStooqCsv_usable[of _ num]
    by (auto simp add: fetchPrices_v1_def Let_def split: sum.splits if_splits)
  have d: "fetchPricesStooq num (Inl e) = Inl e" by (simp add: fetchPricesStooq_def)
  have f: "length (split_lines (trim csv)) < 3 \<longrightarrow> fetchPricesStooq num (Inr csv) = Inl (Error ''No data'')"
    by (simp add: fetchPricesStooq_def Let_def)
  have g: "fetchPricesStooq num response = Inr rows \<longrightarrow>
        (\<forall>r\<in>set rows. date r \<noteq> [] \<and> \<not> isNaN (close r))"
    by (auto simp add: fetchPricesStooq_def Let_def split: sum.splits if_splits dest: csv_row_v2_usable)
  show ?thesis using a b c d f g by (intro conjI)
qed

text \<open>The theorem at the sample answer of three days, at the empty answer and at a
  request that timed out.\<close>

theorem price_fetch_failures_witness:
  "fetchPrices_v1 decimal_Number ''spy.us'' (Inr sample_csv) =
     Inr [\<lparr>date = ''2024-01-02'', close = Num 100\<rparr>, \<lparr>date = ''2024-01-03'', close = Num 110\<rparr>,
      \<lparr>date = ''2024-01-04'', close = Num 99\<rparr>]
   \<and> [\<lparr>date = ''2024-01-02'', close = Num 100\<rparr>, \<lparr>date = ''2024-01-03'', close = Num 110\<rparr>,
      \<lparr>date = ''2024-01-04'', close = Num 99\<rparr>] \<noteq> []
   \<and> (\<exists>e'. fetchPrices_v1 decimal_Number ''spy.us'' (Inr '''') = Inl e')
   \<and> fetchPricesStooq decimal_Number (Inr '''') = Inl (Error ''No data'')
   \<and> fetchPricesStooq decimal_Number (Inl (Error ''Timeout'')) = Inl (Error ''Timeout'')"
proof -
  let ?rows = "[\<lparr>date = ''2024-01-02'', close = Num 100\<rparr>, \<lparr>date = ''2024-01-03'', close = Num 110\<rparr>,
      \<lparr>date = ''2024-01-04'', close = Num 99\<rparr>]"
  note t1 = price_fetch_failures[where num = decimal_Number and symbol = "''spy.us''"
      and response = "Inr sample_csv" and rows = ?rows and csv = "''''" and e = "Error ''Timeout''"]
  have a: "fetchPrices_v1 decimal_Number ''spy.us'' (Inr sample_csv) = Inr ?rows"
    by (rule sample_fetches)
  have b: "?rows \<noteq> []" using t1 a by blast
  have short: "length (split_lines (trim '''')) < 3" by (simp add: split_lines_def)
  have c: "\<exists>e'. fetchPrices_v1 decimal_Number ''spy.us'' (Inr '''') = Inl e'"
    using t1 short by blast
  have d: "fetchPricesStooq decimal_Number (Inr '''') = Inl (Error ''No data'')"
    using t1 short by blast
  have e: "fetchPricesStooq decimal_Number (Inl (Error ''Timeout'')) = Inl (Error ''Timeout'')"
    using t1 by blast
  show ?thesis using a b c d e by (intro conjI)
qed

text \<open>
  The claim as it is worded has every response with fewer than two usable rows, and
  every response without a date column, fail. Three lines of which one data line is
  usable give a history of one row in version 0.1.0, and a header without a date column
  gives an empty history in version 0.2.0; both are returned as a success.
\<close>

theorem price_fetch_few_rows_counterexample:
  "fetchPrices_v1 decimal_Number ''aapl.us'' (Inr ''Date,Close\<newline>2024-01-02,100\<newline>x'')
     = Inr [\<lparr>date = ''2024-01-02'', close = Num 100\<rparr>]
   \<and> fetchPricesStooq decimal_Number (Inr ''Day,Close\<newline>2024-01-02,100\<newline>2024-01-03,110'') = Inr []"
  by code_simp

section \<open>Claim C9: only numbers are written to the cache\<close>





section \<open>Claim C10: ticker normalisation is idempotent\<close>




end
